theory Spec2Isabelle
  imports Main
begin

section \<open>Meal registration: records, counters and the reconciliation handlers\<close>

text \<open>
  The development embeds the most complete server of the repository (the third document of
  \<^verbatim>\<open>src/unnamed/part_002\<close>, lines 1780 to 2482): the Mongoose schemas, the midnight
  cron job and the route handlers that read or write meal records and the per-user counter.

  Conventions of the embedding.
  \<^item> A collection is the list of its documents in insertion order. \<^verbatim>\<open>findOne\<close> returns
    the first document that matches; \<^verbatim>\<open>updateOne({_id: doc._id}, ...)\<close> on a document
    obtained from \<^verbatim>\<open>findOne\<close> changes that same first match; \<^verbatim>\<open>new M(...).save()\<close>
    appends.
  \<^item> A calendar day (a date normalised by \<^verbatim>\<open>setHours(0, 0, 0, 0)\<close>) is its day number,
    an \<open>int\<close>; instants are milliseconds, with midnight of day \<open>d\<close> at
    \<open>d * 86400000\<close>.
  \<^item> The schema restricts the field \<^verbatim>\<open>meal\<close> to four strings, so a stored meal is a
    value of the datatype \<open>meal\<close>; a meal arriving in a request body is still a string and
    is checked by the handler.
  \<^item> A handler returns its response (an \<open>error\<close> on the left, the success payload on the
    right) together with the database it leaves behind. Failures of the persistence layer
    itself (the \<^verbatim>\<open>catch\<close> blocks answering 500) are outside the embedding.
\<close>

subsection \<open>Schemas\<close>

datatype meal = Off | Lunch | Dinner | Both

record user =
  uid :: nat
  name :: string
  classRoll :: nat
  gender :: string
  batch :: string
  totalMealCount :: int

record mealHistory =
  userId :: nat
  date :: int
  meal :: meal
  additionalItems :: "string list"
  lunchServed :: bool
  dinnerServed :: bool
  dailyMealCount :: int
  isExtra :: bool

record db =
  users :: "user list"
  mealHistories :: "mealHistory list"

text \<open>One constructor for each 4xx answer of the handlers modelled below.\<close>

datatype error =
    InvalidMealType
  | DateRequired
  | DateAndUserIdRequired
  | PastDate
  | UserNotFound
  | OffStatus
  | AlreadyServed
  | NotEnabled
  | AlreadyEnabled

subsection \<open>Request values and the meal count\<close>

text \<open>The test \<^verbatim>\<open>['Lunch', 'Dinner', 'Both', 'Off'].includes(meal)\<close> on a request string.\<close>

definition parseMeal :: "string \<Rightarrow> meal option" where
  "parseMeal s =
     (if s = ''Lunch'' then Some Lunch
      else if s = ''Dinner'' then Some Dinner
      else if s = ''Both'' then Some Both
      else if s = ''Off'' then Some Off
      else None)"

text \<open>\<^verbatim>\<open>meal === 'Both' ? 2 : ['Lunch', 'Dinner'].includes(meal) ? 1 : 0\<close>\<close>

definition mealCount :: "meal \<Rightarrow> int" where
  "mealCount m = (if m = Both then 2 else if m \<in> {Lunch, Dinner} then 1 else 0)"

definition msPerDay :: int where
  "msPerDay = 24 * 60 * 60 * 1000"

definition midnight :: "int \<Rightarrow> int" where
  "midnight d = d * msPerDay"

subsection \<open>Collection primitives\<close>

fun updateFirst :: "('a \<Rightarrow> bool) \<Rightarrow> ('a \<Rightarrow> 'a) \<Rightarrow> 'a list \<Rightarrow> 'a list" where
  "updateFirst p f [] = []"
| "updateFirst p f (x # xs) = (if p x then f x # xs else x # updateFirst p f xs)"

definition forDay :: "nat \<Rightarrow> int \<Rightarrow> mealHistory \<Rightarrow> bool" where
  "forDay u d r = (userId r = u \<and> date r = d)"

text \<open>\<^verbatim>\<open>MealHistory.findOne({ userId, date })\<close> and \<^verbatim>\<open>User.findById(id)\<close>.\<close>

definition findMeal :: "db \<Rightarrow> nat \<Rightarrow> int \<Rightarrow> mealHistory option" where
  "findMeal s u d = find (forDay u d) (mealHistories s)"

definition findById :: "db \<Rightarrow> nat \<Rightarrow> user option" where
  "findById s i = find (\<lambda>x. uid x = i) (users s)"

text \<open>\<^verbatim>\<open>MealHistory.updateOne({ _id: mealHistory._id }, change)\<close> for the document that
  \<open>findMeal s u d\<close> returned.\<close>

definition updateMeal :: "nat \<Rightarrow> int \<Rightarrow> (mealHistory \<Rightarrow> mealHistory) \<Rightarrow> db \<Rightarrow> db" where
  "updateMeal u d f s = s\<lparr>mealHistories := updateFirst (forDay u d) f (mealHistories s)\<rparr>"

definition saveMeal :: "mealHistory \<Rightarrow> db \<Rightarrow> db" where
  "saveMeal r s = s\<lparr>mealHistories := mealHistories s @ [r]\<rparr>"

text \<open>\<^verbatim>\<open>User.updateOne({ _id: id }, { $inc: { totalMealCount: k } })\<close>\<close>

definition incTotal :: "nat \<Rightarrow> int \<Rightarrow> db \<Rightarrow> db" where
  "incTotal i k s =
     s\<lparr>users := updateFirst (\<lambda>x. uid x = i) (\<lambda>x. x\<lparr>totalMealCount := totalMealCount x + k\<rparr>) (users s)\<rparr>"

text \<open>\<^verbatim>\<open>MealHistory.findOne({ userId, date: { $lt: d } }).sort({ date: -1 })\<close>: the record of
  the user with the greatest date before \<open>d\<close>.\<close>

definition laterOf :: "mealHistory \<Rightarrow> mealHistory option \<Rightarrow> mealHistory option" where
  "laterOf r best =
     (case best of None \<Rightarrow> Some r
      | Some b \<Rightarrow> if date b < date r then Some r else Some b)"

definition findLatestBefore :: "db \<Rightarrow> nat \<Rightarrow> int \<Rightarrow> mealHistory option" where
  "findLatestBefore s u d =
     fold laterOf (filter (\<lambda>r. userId r = u \<and> date r < d) (mealHistories s)) None"

text \<open>The document that the cron job and the serve handler build from a previous record:
  \<^verbatim>\<open>meal: previousMeal?.meal || 'Off'\<close>, \<^verbatim>\<open>additionalItems: previousMeal?.additionalItems || []\<close>,
  \<^verbatim>\<open>dailyMealCount: previousMeal ? (count of previousMeal.meal) : 0\<close>, both served flags
  false; \<^verbatim>\<open>isExtra\<close> takes the schema default.\<close>

definition carriedForward :: "nat \<Rightarrow> int \<Rightarrow> mealHistory option \<Rightarrow> mealHistory" where
  "carriedForward u d previousMeal =
     \<lparr>userId = u, date = d,
      meal = (case previousMeal of None \<Rightarrow> Off | Some p \<Rightarrow> meal p),
      additionalItems = (case previousMeal of None \<Rightarrow> [] | Some p \<Rightarrow> additionalItems p),
      lunchServed = False, dinnerServed = False,
      dailyMealCount = (case previousMeal of None \<Rightarrow> 0 | Some p \<Rightarrow> mealCount (meal p)),
      isExtra = False\<rparr>"

subsection \<open>POST /meal-update and POST /api/meal/staff-update\<close>

text \<open>
  The body field \<^verbatim>\<open>additionalItems\<close> is modelled as a list: an array as itself, a single
  string as the singleton list, an absent field as the empty list; in each case
  \<^verbatim>\<open>filter(Boolean)\<close> drops the empty strings. A missing or empty \<^verbatim>\<open>date\<close> is \<open>None\<close>.
  The first argument after the database is the instant \<^verbatim>\<open>new Date()\<close> of the request.
\<close>

definition changedRecord :: "meal \<Rightarrow> mealHistory \<Rightarrow> mealHistory \<Rightarrow> mealHistory" where
  "changedRecord m old r =
     r\<lparr>meal := m, dailyMealCount := mealCount m,
       lunchServed := (if m \<in> {Both, Lunch} then lunchServed old else False),
       dinnerServed := (if m \<in> {Both, Dinner} then dinnerServed old else False)\<rparr>"

definition mealUpdate ::
  "db \<Rightarrow> int \<Rightarrow> nat \<Rightarrow> string \<Rightarrow> string list \<Rightarrow> int option \<Rightarrow> (error + unit) \<times> db" where
  "mealUpdate s now sessionUser mealField items dateField =
     (case parseMeal mealField of
        None \<Rightarrow> (Inl InvalidMealType, s)
      | Some m \<Rightarrow>
     (case dateField of
        None \<Rightarrow> (Inl DateRequired, s)
      | Some selectedDate \<Rightarrow>
        if midnight selectedDate + 24 * 60 * 60 * 1000 - 1 < now then (Inl PastDate, s)
        else
     (case findById s sessionUser of
        None \<Rightarrow> (Inl UserNotFound, s)
      | Some _ \<Rightarrow>
        let additionalItemsArray = filter (\<lambda>x. x \<noteq> []) items;
            newMealCount = mealCount m
        in (case findMeal s sessionUser selectedDate of
              Some mh \<Rightarrow>
                let oldMealCount = mealCount (meal mh)
                in (Inr (),
                    incTotal sessionUser (newMealCount - oldMealCount)
                      (updateMeal sessionUser selectedDate
                         (\<lambda>r. (changedRecord m mh r)\<lparr>additionalItems := additionalItemsArray\<rparr>) s))
            | None \<Rightarrow>
                (Inr (),
                 incTotal sessionUser newMealCount
                   (saveMeal
                      \<lparr>userId = sessionUser, date = selectedDate, meal = m,
                       additionalItems = additionalItemsArray,
                       lunchServed = False, dinnerServed = False,
                       dailyMealCount = newMealCount, isExtra = False\<rparr> s))))))"

definition staffUpdate ::
  "db \<Rightarrow> nat option \<Rightarrow> string \<Rightarrow> int option \<Rightarrow> (error + unit) \<times> db" where
  "staffUpdate s userField mealField dateField =
     (case parseMeal mealField of
        None \<Rightarrow> (Inl InvalidMealType, s)
      | Some m \<Rightarrow>
     (case (dateField, userField) of
        (Some selectedDate, Some u) \<Rightarrow>
          (case findById s u of
             None \<Rightarrow> (Inl UserNotFound, s)
           | Some _ \<Rightarrow>
             let newMealCount = mealCount m
             in (case findMeal s u selectedDate of
                   Some mh \<Rightarrow>
                     let oldMealCount = mealCount (meal mh)
                     in (Inr (),
                         incTotal u (newMealCount - oldMealCount)
                           (updateMeal u selectedDate (changedRecord m mh) s))
                 | None \<Rightarrow>
                     (Inr (),
                      incTotal u newMealCount
                        (saveMeal
                           \<lparr>userId = u, date = selectedDate, meal = m,
                            additionalItems = [],
                            lunchServed = False, dinnerServed = False,
                            dailyMealCount = newMealCount, isExtra = False\<rparr> s))))
      | _ \<Rightarrow> (Inl DateAndUserIdRequired, s)))"

subsection \<open>The cron job: daily meal update at midnight\<close>

text \<open>
  One iteration of \<^verbatim>\<open>for (const user of users)\<close>. The job looks for the record of
  \<open>today\<close>; when there is none it saves one built from the record dated
  \<open>yesterday = today - 1\<close>; then it rewrites \<^verbatim>\<open>dailyMealCount\<close> and increments the
  counter by \<^verbatim>\<open>mealCount - mealHistory.dailyMealCount\<close>.
\<close>

definition cronUser :: "int \<Rightarrow> nat \<Rightarrow> db \<Rightarrow> db" where
  "cronUser today u s =
     (let yesterday = today - 1;
          (mealHistory, s1) =
            (case findMeal s u today of
               Some r \<Rightarrow> (r, s)
             | None \<Rightarrow>
                 let previousMeal = findMeal s u yesterday;
                     r = carriedForward u today previousMeal
                 in (r, saveMeal r s));
          mealCnt = mealCount (meal mealHistory);
          s2 = updateMeal u today (\<lambda>r. r\<lparr>dailyMealCount := mealCnt\<rparr>) s1
      in incTotal u (mealCnt - dailyMealCount mealHistory) s2)"

text \<open>The loop runs over the snapshot \<^verbatim>\<open>await User.find().lean()\<close> taken before it starts.\<close>

definition dailyMealUpdate :: "int \<Rightarrow> db \<Rightarrow> db" where
  "dailyMealUpdate today s = fold (cronUser today) (map uid (users s)) s"

subsection \<open>POST /api/meal/serve/:userId\<close>

definition serve :: "db \<Rightarrow> nat \<Rightarrow> string \<Rightarrow> int \<Rightarrow> (error + unit) \<times> db" where
  "serve s u mealTypeField selectedDate =
     (case parseMeal mealTypeField of
        None \<Rightarrow> (Inl InvalidMealType, s)
      | Some mealType \<Rightarrow>
        if mealType \<notin> {Lunch, Dinner} then (Inl InvalidMealType, s)
        else
          (case (case findMeal s u selectedDate of
                   Some r \<Rightarrow> Inr (r, s)
                 | None \<Rightarrow>
                     (case findById s u of
                        None \<Rightarrow> Inl UserNotFound
                      | Some _ \<Rightarrow>
                          let previousMeal = findLatestBefore s u selectedDate;
                              r = carriedForward u selectedDate previousMeal
                          in Inr (r, saveMeal r s))) of
             Inl e \<Rightarrow> (Inl e, s)
           | Inr (mealHistory, s1) \<Rightarrow>
               if meal mealHistory = Off then (Inl OffStatus, s1)
               else if (mealType = Lunch \<and> lunchServed mealHistory)
                     \<or> (mealType = Dinner \<and> dinnerServed mealHistory)
                 then (Inl AlreadyServed, s1)
               else if mealType = Lunch \<and> meal mealHistory \<notin> {Lunch, Both}
                 then (Inl NotEnabled, s1)
               else if mealType = Dinner \<and> meal mealHistory \<notin> {Dinner, Both}
                 then (Inl NotEnabled, s1)
               else (Inr (),
                     updateMeal u selectedDate
                       (\<lambda>r. if mealType = Lunch then r\<lparr>lunchServed := True\<rparr>
                            else r\<lparr>dinnerServed := True\<rparr>) s1)))"

subsection \<open>POST /api/meal/extra and POST /api/meal/extra-specific\<close>

text \<open>
  The bulk grant: \<^verbatim>\<open>updateMany({ date, meal: 'Off' }, ...)\<close> rewrites every matching
  document and reports their number as \<^verbatim>\<open>modifiedCount\<close>; when that number is positive
  the handler collects the \<^verbatim>\<open>userId\<close> of every record of the day whose meal now equals
  \<^verbatim>\<open>mealType\<close> and increments those users.
\<close>

definition extra :: "db \<Rightarrow> string \<Rightarrow> int \<Rightarrow> (error + nat) \<times> db" where
  "extra s mealTypeField selectedDate =
     (case parseMeal mealTypeField of
        None \<Rightarrow> (Inl InvalidMealType, s)
      | Some mealType \<Rightarrow>
        if mealType \<notin> {Lunch, Dinner, Both} then (Inl InvalidMealType, s)
        else
          let matches = (\<lambda>r. date r = selectedDate \<and> meal r = Off);
              modifiedCount = length (filter matches (mealHistories s));
              s1 = s\<lparr>mealHistories :=
                      map (\<lambda>r. if matches r
                                then r\<lparr>meal := mealType, lunchServed := False,
                                       dinnerServed := False,
                                       dailyMealCount := (if mealType = Both then 2 else 1),
                                       isExtra := True\<rparr>
                                else r) (mealHistories s)\<rparr>
          in if modifiedCount > 0 then
               let userIds = map userId
                     (filter (\<lambda>r. date r = selectedDate \<and> meal r = mealType) (mealHistories s1))
               in (Inr modifiedCount,
                   s1\<lparr>users :=
                        map (\<lambda>x. if uid x \<in> set userIds
                                  then x\<lparr>totalMealCount :=
                                          totalMealCount x + (if mealType = Both then 2 else 1)\<rparr>
                                  else x) (users s1)\<rparr>)
             else (Inr modifiedCount, s1))"

text \<open>The update document of the specific grant: the new meal and count, the served flags of
  the record read before, kept only for the slots of the new meal, and \<^verbatim>\<open>isExtra: true\<close>.\<close>

definition extraRecord :: "meal \<Rightarrow> int \<Rightarrow> mealHistory \<Rightarrow> mealHistory \<Rightarrow> mealHistory" where
  "extraRecord newMeal newMealCount old r =
     r\<lparr>meal := newMeal, dailyMealCount := newMealCount,
       lunchServed := (if newMeal \<in> {Both, Lunch} then lunchServed old else False),
       dinnerServed := (if newMeal \<in> {Both, Dinner} then dinnerServed old else False),
       isExtra := True\<rparr>"

definition extraSpecific :: "db \<Rightarrow> nat \<Rightarrow> string \<Rightarrow> int \<Rightarrow> (error + unit) \<times> db" where
  "extraSpecific s u mealTypeField selectedDate =
     (case parseMeal mealTypeField of
        None \<Rightarrow> (Inl InvalidMealType, s)
      | Some mealType \<Rightarrow>
        if mealType \<notin> {Lunch, Dinner} then (Inl InvalidMealType, s)
        else
          (case (case findMeal s u selectedDate of
                   Some r \<Rightarrow> Inr (r, s)
                 | None \<Rightarrow>
                     (case findById s u of
                        None \<Rightarrow> Inl UserNotFound
                      | Some _ \<Rightarrow>
                          let r = \<lparr>userId = u, date = selectedDate, meal = Off,
                                   additionalItems = [],
                                   lunchServed = False, dinnerServed = False,
                                   dailyMealCount = 0, isExtra = False\<rparr>
                          in Inr (r, saveMeal r s))) of
             Inl e \<Rightarrow> (Inl e, s)
           | Inr (mealHistory, s1) \<Rightarrow>
               (case (if meal mealHistory = Off then Some (mealType, 1)
                      else if meal mealHistory = Lunch \<and> mealType = Dinner
                            \<or> meal mealHistory = Dinner \<and> mealType = Lunch
                        then Some (Both, 2)
                      else None) of
                  None \<Rightarrow> (Inl AlreadyEnabled, s1)
                | Some (newMeal, newMealCount) \<Rightarrow>
                    let oldMealCount = mealCount (meal mealHistory)
                    in (Inr (),
                        incTotal u (newMealCount - oldMealCount)
                          (updateMeal u selectedDate
                             (extraRecord newMeal newMealCount mealHistory) s1)))))"

subsection \<open>GET /api/meal/all-users\<close>

text \<open>
  The query parameters \<^verbatim>\<open>batch\<close> and \<^verbatim>\<open>gender\<close> restrict the users when present and
  different from \<^verbatim>\<open>'all'\<close>; an absent parameter is the empty string. The handler maps
  each user to an entry with the list \<^verbatim>\<open>offMeals\<close> and drops the users whose list is
  empty. A user without a record of the day is treated as
  \<^verbatim>\<open>{ meal: 'Off', lunchServed: false, dinnerServed: false }\<close>.
\<close>

record offUser =
  entryId :: nat
  entryName :: string
  entryClassRoll :: nat
  offMeals :: "meal list"

definition offMealsOf :: "meal \<Rightarrow> bool \<Rightarrow> bool \<Rightarrow> meal list" where
  "offMealsOf m lunchFlag dinnerFlag =
     (if m = Off then [Lunch, Dinner]
      else if m = Lunch \<and> \<not> lunchFlag then [Dinner]
      else if m = Dinner \<and> \<not> dinnerFlag then [Lunch]
      else if m = Both \<and> \<not> lunchFlag then [Lunch]
      else if m = Both \<and> \<not> dinnerFlag then [Dinner]
      else [])"

definition userOffMeals :: "db \<Rightarrow> int \<Rightarrow> user \<Rightarrow> meal list" where
  "userOffMeals s selectedDate x =
     (case find (\<lambda>mh. userId mh = uid x)
             (filter (\<lambda>mh. date mh = selectedDate) (mealHistories s)) of
        Some mh \<Rightarrow> offMealsOf (meal mh) (lunchServed mh) (dinnerServed mh)
      | None \<Rightarrow> offMealsOf Off False False)"

definition allUsers :: "db \<Rightarrow> int \<Rightarrow> string \<Rightarrow> string \<Rightarrow> offUser list \<times> db" where
  "allUsers s selectedDate batchField genderField =
     (let selected = filter
            (\<lambda>x. (batchField \<noteq> [] \<and> batchField \<noteq> ''all'' \<longrightarrow> batch x = batchField)
               \<and> (genderField \<noteq> [] \<and> genderField \<noteq> ''all'' \<longrightarrow> gender x = genderField))
            (users s);
          entries = map (\<lambda>x. \<lparr>entryId = uid x, entryName = name x,
                              entryClassRoll = classRoll x,
                              offMeals = userOffMeals s selectedDate x\<rparr>) selected
      in (filter (\<lambda>e. offMeals e \<noteq> []) entries, s))"

subsection \<open>Vocabulary of the properties\<close>

text \<open>The database with the add-on lists blanked: what two runs have in common when they differ
  only in how they treat \<^verbatim>\<open>additionalItems\<close>.\<close>

definition eraseItems :: "db \<Rightarrow> db" where
  "eraseItems s = s\<lparr>mealHistories := map (\<lambda>r. r\<lparr>additionalItems := []\<rparr>) (mealHistories s)\<rparr>"

text \<open>A meal slot is Lunch or Dinner. \<open>includesSlot m slot\<close> says that the day's meal \<open>m\<close> covers
  the slot; \<open>servedFlag\<close> reads the served flag of a slot and \<open>markServed\<close> sets it.\<close>

definition includesSlot :: "meal \<Rightarrow> meal \<Rightarrow> bool" where
  "includesSlot m slot = (slot = Lunch \<and> m \<in> {Lunch, Both} \<or> slot = Dinner \<and> m \<in> {Dinner, Both})"

definition servedFlag :: "meal \<Rightarrow> mealHistory \<Rightarrow> bool" where
  "servedFlag slot r = (if slot = Lunch then lunchServed r else dinnerServed r)"

definition markServed :: "meal \<Rightarrow> mealHistory \<Rightarrow> mealHistory" where
  "markServed slot r = (if slot = Lunch then r\<lparr>lunchServed := True\<rparr> else r\<lparr>dinnerServed := True\<rparr>)"

text \<open>Invariant I3 of the specification, for one record: a served flag is set only for a slot
  that the meal covers.\<close>

definition servedOk :: "mealHistory \<Rightarrow> bool" where
  "servedOk r = ((lunchServed r \<longrightarrow> meal r \<in> {Lunch, Both})
               \<and> (dinnerServed r \<longrightarrow> meal r \<in> {Dinner, Both}))"

text \<open>The record that a serve call for a user and a day works on: the stored one, or else the
  one the handler builds from the latest earlier record.\<close>

definition servedRecord :: "db \<Rightarrow> nat \<Rightarrow> int \<Rightarrow> mealHistory" where
  "servedRecord s u d =
     (case findMeal s u d of
        Some r \<Rightarrow> r
      | None \<Rightarrow> carriedForward u d (findLatestBefore s u d))"

text \<open>A user is settled for a day when the record of that day exists and its stored daily count
  is the count of its meal (invariant I2 for that record); \<open>recordsFor\<close> counts the records
  of a user and a day.\<close>

definition settled :: "int \<Rightarrow> db \<Rightarrow> nat \<Rightarrow> bool" where
  "settled d s u =
     (case findMeal s u d of
        None \<Rightarrow> False
      | Some r \<Rightarrow> dailyMealCount r = mealCount (meal r))"

definition recordsFor :: "db \<Rightarrow> nat \<Rightarrow> int \<Rightarrow> nat" where
  "recordsFor s u d = length (filter (forDay u d) (mealHistories s))"

text \<open>Invariant I1 of the specification: every user's \<^verbatim>\<open>totalMealCount\<close> is the sum of
  \<^verbatim>\<open>dailyMealCount\<close> over that user's records.\<close>

definition dailySum :: "db \<Rightarrow> nat \<Rightarrow> int" where
  "dailySum s u = sum_list (map dailyMealCount (filter (\<lambda>r. userId r = u) (mealHistories s)))"

definition countsInSync :: "db \<Rightarrow> bool" where
  "countsInSync s = list_all (\<lambda>x. totalMealCount x = dailySum s (uid x)) (users s)"

text \<open>A database is consistent when user ids are distinct, every record satisfies invariant I2
  (its daily count is the count of its meal) and the counters are in sync (invariant I1).\<close>

definition consistent :: "db \<Rightarrow> bool" where
  "consistent s =
     (distinct (map uid (users s))
      \<and> list_all (\<lambda>r. dailyMealCount r = mealCount (meal r)) (mealHistories s)
      \<and> countsInSync s)"

text \<open>\<open>hasRecord s u d M\<close>: the user has a record of the day whose meal is one of \<open>M\<close>.\<close>

definition hasRecord :: "db \<Rightarrow> nat \<Rightarrow> int \<Rightarrow> meal set \<Rightarrow> bool" where
  "hasRecord s u d M = list_ex (\<lambda>r. userId r = u \<and> date r = d \<and> meal r \<in> M) (mealHistories s)"

text \<open>Sample data for the concrete runs below.\<close>

definition student :: "nat \<Rightarrow> int \<Rightarrow> user" where
  "student i count =
     \<lparr>uid = i, name = ''Student'', classRoll = i, gender = ''Female'', batch = ''12'',
      totalMealCount = count\<rparr>"

definition entry :: "nat \<Rightarrow> int \<Rightarrow> meal \<Rightarrow> bool \<Rightarrow> bool \<Rightarrow> mealHistory" where
  "entry u d m ls ds =
     \<lparr>userId = u, date = d, meal = m, additionalItems = [],
      lunchServed = ls, dinnerServed = ds, dailyMealCount = mealCount m, isExtra = False\<rparr>"

section \<open>Properties\<close>

subsection \<open>Collections\<close>

lemma find_updateFirst_same:
  "(\<And>x. p x \<Longrightarrow> p (f x)) \<Longrightarrow> find p (updateFirst p f xs) = map_option f (find p xs)"
  by (induction xs) auto

lemma find_updateFirst_other:
  "(\<And>x. p x \<Longrightarrow> \<not> q x \<and> \<not> q (f x)) \<Longrightarrow> find q (updateFirst p f xs) = find q xs"
  by (induction xs) auto

lemma find_append_absent:
  "find p xs = None \<Longrightarrow> find p (xs @ ys) = find p ys"
  by (induction xs) (auto split: if_splits)

lemma find_append_present:
  "find p xs = Some x \<Longrightarrow> find p (xs @ ys) = Some x"
  by (induction xs) (auto split: if_splits)

lemma updateFirst_unchanged:
  "(\<And>x. find p xs = Some x \<Longrightarrow> f x = x) \<Longrightarrow> updateFirst p f xs = xs"
  by (induction xs) (auto split: if_splits)

lemma map_updateFirst:
  "(\<And>x. p (g x) = p x) \<Longrightarrow> (\<And>x. g (f x) = f' (g x)) \<Longrightarrow>
   map g (updateFirst p f xs) = updateFirst p f' (map g xs)"
  by (induction xs) auto

lemma length_updateFirst: "length (updateFirst p f xs) = length xs"
  by (induction xs) auto

lemma users_updateMeal: "users (updateMeal u d f s) = users s"
  by (simp add: updateMeal_def)

lemma users_saveMeal: "users (saveMeal r s) = users s"
  by (simp add: saveMeal_def)

lemma mealHistories_incTotal: "mealHistories (incTotal i k s) = mealHistories s"
  by (simp add: incTotal_def)

lemma findMeal_incTotal: "findMeal (incTotal i k s) u d = findMeal s u d"
  by (simp add: findMeal_def incTotal_def)

lemma findById_updateMeal: "findById (updateMeal u d f s) i = findById s i"
  by (simp add: findById_def updateMeal_def)

lemma findById_saveMeal: "findById (saveMeal r s) i = findById s i"
  by (simp add: findById_def saveMeal_def)

lemma findById_incTotal_same:
  "findById (incTotal i k s) i
   = map_option (\<lambda>x. x\<lparr>totalMealCount := totalMealCount x + k\<rparr>) (findById s i)"
  unfolding findById_def incTotal_def
  by (simp, rule find_updateFirst_same) simp

lemma findById_incTotal_other:
  "j \<noteq> i \<Longrightarrow> findById (incTotal i k s) j = findById s j"
  unfolding findById_def incTotal_def
  by (simp, rule find_updateFirst_other) simp

lemma findMeal_updateMeal_same:
  "(\<And>r. userId (f r) = userId r \<and> date (f r) = date r) \<Longrightarrow>
   findMeal (updateMeal u d f s) u d = map_option f (findMeal s u d)"
  unfolding findMeal_def updateMeal_def
  by (simp, rule find_updateFirst_same) (simp add: forDay_def)

lemma findMeal_updateMeal_other:
  "(\<And>r. userId (f r) = userId r \<and> date (f r) = date r) \<Longrightarrow> (u', d') \<noteq> (u, d) \<Longrightarrow>
   findMeal (updateMeal u d f s) u' d' = findMeal s u' d'"
  unfolding findMeal_def updateMeal_def
  by (simp, rule find_updateFirst_other) (auto simp: forDay_def)

lemma findMeal_saveMeal_new:
  "findMeal s u d = None \<Longrightarrow> userId r = u \<Longrightarrow> date r = d \<Longrightarrow>
   findMeal (saveMeal r s) u d = Some r"
  by (simp add: findMeal_def saveMeal_def find_append_absent forDay_def)

lemma findMeal_saveMeal_other:
  "(userId r, date r) \<noteq> (u, d) \<Longrightarrow> findMeal (saveMeal r s) u d = findMeal s u d"
  by (cases "findMeal s u d")
     (auto simp: findMeal_def saveMeal_def find_append_absent find_append_present forDay_def)

subsection \<open>Validation of a meal change, and the staff path\<close>

lemma parseMeal_None:
  "parseMeal s = None \<longleftrightarrow> s \<notin> {''Off'', ''Lunch'', ''Dinner'', ''Both''}"
  by (simp add: parseMeal_def)

lemma less_div_iff_int:
  assumes "0 < (k::int)"
  shows "d < n div k \<longleftrightarrow> (d + 1) * k \<le> n"
proof
  assume "d < n div k"
  then have "d + 1 \<le> n div k" by simp
  then have "(d + 1) * k \<le> (n div k) * k"
    using assms by (simp only: mult_right_mono less_imp_le)
  also have "\<dots> = n - n mod k"
    by (simp add: minus_mod_eq_div_mult)
  also have "\<dots> \<le> n"
    using assms by simp
  finally show "(d + 1) * k \<le> n" .
next
  assume "(d + 1) * k \<le> n"
  then have "((d + 1) * k) div k \<le> n div k"
    using assms by (rule zdiv_mono1)
  then show "d < n div k"
    using assms by simp
qed

lemma past_date_check:
  "midnight d + 24 * 60 * 60 * 1000 - 1 < now \<longleftrightarrow> d < now div msPerDay"
proof -
  have "0 < msPerDay" by (simp add: msPerDay_def)
  then have "d < now div msPerDay \<longleftrightarrow> (d + 1) * msPerDay \<le> now"
    by (rule less_div_iff_int)
  moreover have "midnight d + 24 * 60 * 60 * 1000 - 1 < now \<longleftrightarrow> (d + 1) * msPerDay \<le> now"
    unfolding midnight_def msPerDay_def by (simp add: algebra_simps) linarith
  ultimately show ?thesis by simp
qed

lemma eraseItems_incTotal: "eraseItems (incTotal u k s) = incTotal u k (eraseItems s)"
  by (simp add: eraseItems_def incTotal_def)

lemma eraseItems_saveMeal:
  "eraseItems (saveMeal r s) = saveMeal (r\<lparr>additionalItems := []\<rparr>) (eraseItems s)"
  by (simp add: eraseItems_def saveMeal_def)

lemma eraseItems_updateMeal:
  assumes "\<And>r. (f r)\<lparr>additionalItems := []\<rparr> = f' (r\<lparr>additionalItems := []\<rparr>)"
  shows "eraseItems (updateMeal u d f s) = updateMeal u d f' (eraseItems s)"
  using assms by (simp add: eraseItems_def updateMeal_def map_updateFirst forDay_def)

lemma staffUpdate_as_mealUpdate:
  assumes "\<not> midnight d + 24 * 60 * 60 * 1000 - 1 < now"
  shows "fst (staffUpdate s (Some u) mf (Some d)) = fst (mealUpdate s now u mf items (Some d))"
    and "eraseItems (snd (staffUpdate s (Some u) mf (Some d)))
         = eraseItems (snd (mealUpdate s now u mf items (Some d)))"
proof -
  show "fst (staffUpdate s (Some u) mf (Some d)) = fst (mealUpdate s now u mf items (Some d))"
    using assms by (simp add: staffUpdate_def mealUpdate_def Let_def split: option.splits)
  have upd1: "eraseItems (updateMeal u d (changedRecord m mh) s)
       = updateMeal u d (changedRecord m mh) (eraseItems s)" for m mh
    by (rule eraseItems_updateMeal) (simp add: changedRecord_def)
  have upd2: "eraseItems (updateMeal u d (\<lambda>r. (changedRecord m mh r)\<lparr>additionalItems := xs\<rparr>) s)
       = updateMeal u d (changedRecord m mh) (eraseItems s)" for m mh xs
    by (rule eraseItems_updateMeal) (simp add: changedRecord_def)
  show "eraseItems (snd (staffUpdate s (Some u) mf (Some d)))
         = eraseItems (snd (mealUpdate s now u mf items (Some d)))"
    using assms
    by (simp add: staffUpdate_def mealUpdate_def Let_def eraseItems_incTotal upd1 upd2
        eraseItems_saveMeal split: option.splits)
qed

lemma mealUpdate_invalid:
  "fst (mealUpdate s now su mf items df) = Inl InvalidMealType
   \<longleftrightarrow> mf \<notin> {''Off'', ''Lunch'', ''Dinner'', ''Both''}"
  unfolding parseMeal_None [symmetric]
  by (simp add: mealUpdate_def Let_def split: option.splits)

lemma staffUpdate_invalid:
  "fst (staffUpdate s uf mf df) = Inl InvalidMealType
   \<longleftrightarrow> mf \<notin> {''Off'', ''Lunch'', ''Dinner'', ''Both''}"
  unfolding parseMeal_None [symmetric]
  by (simp add: staffUpdate_def Let_def split: option.splits)

lemma mealUpdate_past:
  "mf \<in> {''Off'', ''Lunch'', ''Dinner'', ''Both''} \<Longrightarrow>
   fst (mealUpdate s now su mf items (Some d)) = Inl PastDate \<longleftrightarrow> d < now div msPerDay"
  unfolding past_date_check [symmetric]
  using parseMeal_None [of mf]
  by (auto simp: mealUpdate_def Let_def split: option.splits)

lemma staffUpdate_never_past: "fst (staffUpdate s uf mf df) \<noteq> Inl PastDate"
  by (simp add: staffUpdate_def Let_def split: option.splits)

text \<open>
  Claim C8. A meal change is refused as an invalid meal type exactly when the submitted meal is
  not one of \<^verbatim>\<open>Off\<close>, \<^verbatim>\<open>Lunch\<close>, \<^verbatim>\<open>Dinner\<close>, \<^verbatim>\<open>Both\<close>, on the self-service path and on the
  staff path alike. For a valid meal and a given date, the self-service path refuses the
  request as a past date exactly when the day lies strictly before the day of the current
  instant. The staff path never answers with the past-date error. It gives the same answer,
  the same counters and the same records, up to the add-on lists that a staff request does not
  carry, as the self-service path gives for every day that is not past; and for any day at
  all, past ones included, as the self-service path gives when asked on that day itself. A
  request without a date is refused with a separate answer.
\<close>

theorem meal_change_validation:
  "(fst (mealUpdate s now u mf items df) = Inl InvalidMealType
      \<longleftrightarrow> mf \<notin> {''Off'', ''Lunch'', ''Dinner'', ''Both''})
   \<and> (fst (staffUpdate s uf mf df) = Inl InvalidMealType
      \<longleftrightarrow> mf \<notin> {''Off'', ''Lunch'', ''Dinner'', ''Both''})
   \<and> (mf \<in> {''Off'', ''Lunch'', ''Dinner'', ''Both''} \<longrightarrow>
       (fst (mealUpdate s now u mf items (Some d)) = Inl PastDate \<longleftrightarrow> d < now div msPerDay))
   \<and> fst (staffUpdate s uf mf df) \<noteq> Inl PastDate
   \<and> (\<not> d < now div msPerDay \<longrightarrow>
       fst (staffUpdate s (Some u) mf (Some d)) = fst (mealUpdate s now u mf items (Some d))
       \<and> eraseItems (snd (staffUpdate s (Some u) mf (Some d)))
         = eraseItems (snd (mealUpdate s now u mf items (Some d))))
   \<and> fst (staffUpdate s (Some u) mf (Some d))
       = fst (mealUpdate s (midnight d) u mf items (Some d))
   \<and> eraseItems (snd (staffUpdate s (Some u) mf (Some d)))
       = eraseItems (snd (mealUpdate s (midnight d) u mf items (Some d)))"
proof -
  have today: "\<not> midnight d + 24 * 60 * 60 * 1000 - 1 < midnight d"
    by simp
  show ?thesis
    using mealUpdate_invalid [of s now u mf items df] staffUpdate_invalid [of s uf mf df]
      mealUpdate_past [of mf s now u items d] staffUpdate_never_past [of s uf mf df]
      staffUpdate_as_mealUpdate [of d now s u mf items]
      staffUpdate_as_mealUpdate [OF today, of s u mf items]
    unfolding past_date_check
    by blast
qed

theorem meal_change_validation_witness:
  "''Both'' \<in> {''Off'', ''Lunch'', ''Dinner'', ''Both''}
   \<and> \<not> (5::int) < 432001000 div msPerDay
   \<and> fst (mealUpdate \<lparr>users = [student 1 0], mealHistories = []\<rparr> 432001000 1 ''Both'' []
          (Some 5)) \<noteq> Inl PastDate
   \<and> fst (staffUpdate \<lparr>users = [student 1 0], mealHistories = []\<rparr> (Some 1) ''Both'' (Some 5))
     = fst (mealUpdate \<lparr>users = [student 1 0], mealHistories = []\<rparr> 432001000 1 ''Both'' []
          (Some 5))
   \<and> eraseItems (snd (staffUpdate \<lparr>users = [student 1 0], mealHistories = []\<rparr> (Some 1)
          ''Both'' (Some 5)))
     = eraseItems (snd (mealUpdate \<lparr>users = [student 1 0], mealHistories = []\<rparr> 432001000 1
          ''Both'' [] (Some 5)))"
  using meal_change_validation
    [where s = "\<lparr>users = [student 1 0], mealHistories = []\<rparr>" and now = 432001000
       and u = 1 and mf = "''Both''" and items = "[]" and df = "Some 5" and uf = "Some 1"
       and d = 5]
  by (simp add: msPerDay_def)

subsection \<open>Effect of a meal change\<close>

lemma mealCount_values:
  "mealCount Off = 0" "mealCount Lunch = 1" "mealCount Dinner = 1" "mealCount Both = 2"
  by (simp_all add: mealCount_def)

lemma length_saveMeal: "length (mealHistories (saveMeal r s)) = length (mealHistories s) + 1"
  by (simp add: saveMeal_def)

lemma length_updateMeal: "length (mealHistories (updateMeal u d f s)) = length (mealHistories s)"
  by (simp add: updateMeal_def length_updateFirst)

lemma mealUpdate_existing:
  assumes "parseMeal mf = Some m" and "\<not> d < now div msPerDay"
    and "findById s u = Some x" and "findMeal s u d = Some old"
  shows "mealUpdate s now u mf items (Some d) =
     (Inr (), incTotal u (mealCount m - mealCount (meal old))
        (updateMeal u d
           (\<lambda>r. (changedRecord m old r)\<lparr>additionalItems := filter (\<lambda>i. i \<noteq> []) items\<rparr>) s))"
  using assms unfolding past_date_check [symmetric] by (simp add: mealUpdate_def Let_def)

lemma mealUpdate_absent:
  assumes "parseMeal mf = Some m" and "\<not> d < now div msPerDay"
    and "findById s u = Some x" and "findMeal s u d = None"
  shows "mealUpdate s now u mf items (Some d) =
     (Inr (), incTotal u (mealCount m)
        (saveMeal \<lparr>userId = u, date = d, meal = m,
                   additionalItems = filter (\<lambda>i. i \<noteq> []) items,
                   lunchServed = False, dinnerServed = False,
                   dailyMealCount = mealCount m, isExtra = False\<rparr> s))"
  using assms unfolding past_date_check [symmetric] by (simp add: mealUpdate_def Let_def)

text \<open>
  Claim C2. A self-service meal change with a valid meal, for a day that is not past and a
  logged-in user that exists, succeeds. When a record of that user and day exists, the record
  afterwards is the old one with the new meal, the submitted add-ons, \<^verbatim>\<open>lunchServed\<close> kept only
  if the new meal is Lunch or Both, \<^verbatim>\<open>dinnerServed\<close> kept only if the new meal is Dinner or
  Both, and the daily count of the new meal; no record is added, and the user's total grows by
  the new count minus the count of the old meal. When there is no record, one is added with
  the new meal, its daily count and both served flags false, and the total grows by that
  count. The count is 0 for Off, 1 for Lunch and for Dinner, 2 for Both.
\<close>

theorem meal_change_effect:
  assumes valid: "parseMeal mf = Some m"
    and day: "\<not> d < now div msPerDay"
    and usr: "findById s u = Some x"
  shows "fst (mealUpdate s now u mf items (Some d)) = Inr ()
     \<and> (case findMeal s u d of
          Some old \<Rightarrow>
            findMeal (snd (mealUpdate s now u mf items (Some d))) u d
              = Some (old\<lparr>meal := m, additionalItems := filter (\<lambda>i. i \<noteq> []) items,
                         lunchServed := (m \<in> {Lunch, Both} \<and> lunchServed old),
                         dinnerServed := (m \<in> {Dinner, Both} \<and> dinnerServed old),
                         dailyMealCount := mealCount m\<rparr>)
            \<and> length (mealHistories (snd (mealUpdate s now u mf items (Some d))))
              = length (mealHistories s)
            \<and> findById (snd (mealUpdate s now u mf items (Some d))) u
              = Some (x\<lparr>totalMealCount :=
                         totalMealCount x + (mealCount m - mealCount (meal old))\<rparr>)
        | None \<Rightarrow>
            findMeal (snd (mealUpdate s now u mf items (Some d))) u d
              = Some \<lparr>userId = u, date = d, meal = m,
                      additionalItems = filter (\<lambda>i. i \<noteq> []) items,
                      lunchServed = False, dinnerServed = False,
                      dailyMealCount = mealCount m, isExtra = False\<rparr>
            \<and> length (mealHistories (snd (mealUpdate s now u mf items (Some d))))
              = length (mealHistories s) + 1
            \<and> findById (snd (mealUpdate s now u mf items (Some d))) u
              = Some (x\<lparr>totalMealCount := totalMealCount x + mealCount m\<rparr>))
     \<and> mealCount Off = 0 \<and> mealCount Lunch = 1 \<and> mealCount Dinner = 1 \<and> mealCount Both = 2"
proof (cases "findMeal s u d")
  case None
  note run = mealUpdate_absent [OF valid day usr None]
  show ?thesis
    by (simp add: None run mealCount_values findMeal_incTotal findMeal_saveMeal_new
        findById_incTotal_same findById_saveMeal usr mealHistories_incTotal length_saveMeal)
next
  case (Some old)
  note run = mealUpdate_existing [OF valid day usr Some]
  have key: "\<And>r.
     userId ((changedRecord m old r)\<lparr>additionalItems := filter (\<lambda>i. i \<noteq> []) items\<rparr>) = userId r
     \<and> date ((changedRecord m old r)\<lparr>additionalItems := filter (\<lambda>i. i \<noteq> []) items\<rparr>) = date r"
    by (simp add: changedRecord_def)
  have rec: "findMeal (snd (mealUpdate s now u mf items (Some d))) u d
     = Some ((changedRecord m old old)\<lparr>additionalItems := filter (\<lambda>i. i \<noteq> []) items\<rparr>)"
    unfolding run by (simp add: findMeal_incTotal findMeal_updateMeal_same [OF key] Some)
  have eq: "(changedRecord m old old)\<lparr>additionalItems := filter (\<lambda>i. i \<noteq> []) items\<rparr>
    = old\<lparr>meal := m, additionalItems := filter (\<lambda>i. i \<noteq> []) items,
          lunchServed := (m \<in> {Lunch, Both} \<and> lunchServed old),
          dinnerServed := (m \<in> {Dinner, Both} \<and> dinnerServed old),
          dailyMealCount := mealCount m\<rparr>"
    by (cases m) (simp_all add: changedRecord_def)
  show ?thesis
    using rec unfolding eq
    by (simp add: Some run mealCount_values findById_incTotal_same findById_updateMeal usr
        mealHistories_incTotal length_updateMeal)
qed

theorem meal_change_effect_witness:
  "parseMeal ''Lunch'' = Some Lunch
   \<and> \<not> (5::int) < 432001000 div msPerDay
   \<and> findById \<lparr>users = [student 1 2], mealHistories = [entry 1 5 Both True True]\<rparr> 1
     = Some (student 1 2)
   \<and> findMeal (snd (mealUpdate
          \<lparr>users = [student 1 2], mealHistories = [entry 1 5 Both True True]\<rparr>
          432001000 1 ''Lunch'' [''Egg'', ''''] (Some 5))) 1 5
     = Some ((entry 1 5 Lunch True False)\<lparr>additionalItems := [''Egg'']\<rparr>)
   \<and> findById (snd (mealUpdate
          \<lparr>users = [student 1 2], mealHistories = [entry 1 5 Both True True]\<rparr>
          432001000 1 ''Lunch'' [''Egg'', ''''] (Some 5))) 1
     = Some (student 1 1)"
proof -
  have h1: "parseMeal ''Lunch'' = Some Lunch"
    by (simp add: parseMeal_def)
  have h2: "\<not> (5::int) < 432001000 div msPerDay"
    by (simp add: msPerDay_def)
  have h3: "findById \<lparr>users = [student 1 2], mealHistories = [entry 1 5 Both True True]\<rparr> 1
     = Some (student 1 2)"
    by (simp add: findById_def student_def)
  have h4: "findMeal \<lparr>users = [student 1 2], mealHistories = [entry 1 5 Both True True]\<rparr> 1 5
     = Some (entry 1 5 Both True True)"
    by (simp add: findMeal_def forDay_def entry_def)
  note run = meal_change_effect [OF h1 h2 h3, of "[''Egg'', '''']", unfolded h4 option.case]
  show ?thesis
    using run h1 h2 h3 by (simp add: entry_def student_def mealCount_def)
qed

subsection \<open>Serving\<close>

lemma serve_stored:
  assumes "parseMeal mf = Some slot" and "slot \<in> {Lunch, Dinner}"
    and "findMeal s u d = Some r"
  shows "serve s u mf d =
     (if meal r = Off then (Inl OffStatus, s)
      else if servedFlag slot r then (Inl AlreadyServed, s)
      else if \<not> includesSlot (meal r) slot then (Inl NotEnabled, s)
      else (Inr (), updateMeal u d (markServed slot) s))"
proof -
  have "(\<lambda>r. if slot = Lunch then r\<lparr>lunchServed := True\<rparr> else r\<lparr>dinnerServed := True\<rparr>)
      = markServed slot"
    by (simp add: markServed_def fun_eq_iff)
  then show ?thesis
    using assms by (auto simp: serve_def servedFlag_def includesSlot_def)
qed

lemma serve_built:
  assumes "parseMeal mf = Some slot" and "slot \<in> {Lunch, Dinner}"
    and "findMeal s u d = None" and "findById s u = Some x"
  shows "serve s u mf d =
     (if \<not> includesSlot (meal (servedRecord s u d)) slot
      then (if meal (servedRecord s u d) = Off then Inl OffStatus else Inl NotEnabled,
            saveMeal (servedRecord s u d) s)
      else (Inr (), updateMeal u d (markServed slot) (saveMeal (servedRecord s u d) s)))"
proof -
  have "(\<lambda>r. if slot = Lunch then r\<lparr>lunchServed := True\<rparr> else r\<lparr>dinnerServed := True\<rparr>)
      = markServed slot"
    by (simp add: markServed_def fun_eq_iff)
  moreover have "\<not> lunchServed (carriedForward u d p)" "\<not> dinnerServed (carriedForward u d p)" for p
    by (simp_all add: carriedForward_def)
  ultimately show ?thesis
    using assms by (auto simp: serve_def servedRecord_def includesSlot_def Let_def)
qed

lemma serve_unknown_user:
  assumes "parseMeal mf = Some slot" and "slot \<in> {Lunch, Dinner}"
    and "findMeal s u d = None" and "findById s u = None"
  shows "serve s u mf d = (Inl UserNotFound, s)"
  using assms by (auto simp: serve_def)

lemma markServed_key: "userId (markServed slot r) = userId r \<and> date (markServed slot r) = date r"
  by (simp add: markServed_def)

lemma markServed_flag: "servedFlag slot (markServed slot r)"
  by (simp add: markServed_def servedFlag_def)

lemma markServed_meal: "meal (markServed slot r) = meal r"
  by (simp add: markServed_def)

lemma carriedForward_key:
  "userId (carriedForward u d p) = u" "date (carriedForward u d p) = d"
  by (simp_all add: carriedForward_def)

lemma includesSlot_not_Off: "includesSlot m slot \<Longrightarrow> m \<noteq> Off"
  by (auto simp: includesSlot_def)

lemma servedOk_flag: "servedOk r \<Longrightarrow> slot \<in> {Lunch, Dinner} \<Longrightarrow> servedFlag slot r \<Longrightarrow>
  includesSlot (meal r) slot"
  by (auto simp: servedOk_def servedFlag_def includesSlot_def)

lemma serve_again:
  assumes "parseMeal mf = Some slot" and "slot \<in> {Lunch, Dinner}"
    and "findMeal s u d = Some r" and "includesSlot (meal r) slot" and "servedFlag slot r"
  shows "fst (serve s u mf d) = Inl AlreadyServed"
  using assms includesSlot_not_Off [of "meal r" slot] by (simp add: serve_stored)

text \<open>
  Claim C7. A serve call names a slot, Lunch or Dinner, for a user and a day; it works on the
  stored record of that user and day or, when there is none and the user exists, on the record
  it builds. Provided the served flags of that record respect invariant I3: if the meal does
  not cover the slot (Off included) the call fails with the Off-status or the not-enabled
  answer; if the meal covers the slot and its flag is set the call fails as already served;
  otherwise it succeeds, the record afterwards is the same record with that one flag set, and
  a second call with the same arguments fails as already served. A failed call leaves the
  record as it was.
\<close>

theorem serve_marking:
  assumes slot: "parseMeal mf = Some slot" "slot \<in> {Lunch, Dinner}"
    and known: "findMeal s u d \<noteq> None \<or> findById s u \<noteq> None"
    and ok: "servedOk (servedRecord s u d)"
  shows "(\<not> includesSlot (meal (servedRecord s u d)) slot \<longrightarrow>
            fst (serve s u mf d) \<in> {Inl OffStatus, Inl NotEnabled})
       \<and> (includesSlot (meal (servedRecord s u d)) slot \<and> servedFlag slot (servedRecord s u d) \<longrightarrow>
            fst (serve s u mf d) = Inl AlreadyServed)
       \<and> (includesSlot (meal (servedRecord s u d)) slot \<and> \<not> servedFlag slot (servedRecord s u d) \<longrightarrow>
            fst (serve s u mf d) = Inr ()
            \<and> findMeal (snd (serve s u mf d)) u d = Some (markServed slot (servedRecord s u d))
            \<and> fst (serve (snd (serve s u mf d)) u mf d) = Inl AlreadyServed)
       \<and> (fst (serve s u mf d) \<noteq> Inr () \<longrightarrow>
            findMeal (snd (serve s u mf d)) u d = Some (servedRecord s u d))"
proof (cases "findMeal s u d")
  case (Some r)
  have r: "servedRecord s u d = r"
    by (simp add: servedRecord_def Some)
  note run = serve_stored [OF slot Some]
  have flag: "servedFlag slot r \<Longrightarrow> includesSlot (meal r) slot"
    using ok slot(2) unfolding r by (rule servedOk_flag)
  have after: "findMeal (updateMeal u d (markServed slot) s) u d = Some (markServed slot r)"
    by (simp add: findMeal_updateMeal_same [OF markServed_key] Some)
  have again: "includesSlot (meal r) slot \<Longrightarrow>
      fst (serve (updateMeal u d (markServed slot) s) u mf d) = Inl AlreadyServed"
    by (rule serve_again [OF slot after]) (simp_all add: markServed_meal markServed_flag)
  show ?thesis
    unfolding r run using flag again after Some includesSlot_not_Off [of "meal r" slot]
    by auto
next
  case None
  then obtain x where x: "findById s u = Some x"
    using known by auto
  define r where "r = servedRecord s u d"
  have built: "r = carriedForward u d (findLatestBefore s u d)"
    by (simp add: r_def servedRecord_def None)
  have key: "userId r = u" "date r = d"
    by (simp_all add: built carriedForward_key)
  have noflag: "\<not> servedFlag slot r"
    by (simp add: built servedFlag_def carriedForward_def)
  note run = serve_built [OF slot None x, folded r_def]
  have saved: "findMeal (saveMeal r s) u d = Some r"
    using None key by (rule findMeal_saveMeal_new)
  have after: "findMeal (updateMeal u d (markServed slot) (saveMeal r s)) u d
      = Some (markServed slot r)"
    by (simp add: findMeal_updateMeal_same [OF markServed_key] saved)
  have again: "includesSlot (meal r) slot \<Longrightarrow>
      fst (serve (updateMeal u d (markServed slot) (saveMeal r s)) u mf d) = Inl AlreadyServed"
    by (rule serve_again [OF slot after]) (simp_all add: markServed_meal markServed_flag)
  show ?thesis
    unfolding r_def [symmetric] run using noflag again after saved
    by auto
qed

theorem serve_marking_witness:
  "parseMeal ''Lunch'' = Some Lunch \<and> Lunch \<in> {Lunch, Dinner}
   \<and> servedOk (servedRecord
         \<lparr>users = [student 1 1], mealHistories = [entry 1 5 Lunch False False]\<rparr> 1 5)
   \<and> fst (serve \<lparr>users = [student 1 1], mealHistories = [entry 1 5 Lunch False False]\<rparr>
          1 ''Lunch'' 5) = Inr ()
   \<and> findMeal (snd (serve
          \<lparr>users = [student 1 1], mealHistories = [entry 1 5 Lunch False False]\<rparr>
          1 ''Lunch'' 5)) 1 5 = Some (entry 1 5 Lunch True False)
   \<and> fst (serve (snd (serve
          \<lparr>users = [student 1 1], mealHistories = [entry 1 5 Lunch False False]\<rparr>
          1 ''Lunch'' 5)) 1 ''Lunch'' 5) = Inl AlreadyServed"
proof -
  have r: "servedRecord \<lparr>users = [student 1 1], mealHistories = [entry 1 5 Lunch False False]\<rparr>
      1 5 = entry 1 5 Lunch False False"
    by (simp add: servedRecord_def findMeal_def forDay_def entry_def)
  have h1: "parseMeal ''Lunch'' = Some Lunch"
    by (simp add: parseMeal_def)
  have h2: "Lunch \<in> {Lunch, Dinner}"
    by simp
  have h3: "findMeal \<lparr>users = [student 1 1], mealHistories = [entry 1 5 Lunch False False]\<rparr>
      1 5 \<noteq> None
    \<or> findById \<lparr>users = [student 1 1], mealHistories = [entry 1 5 Lunch False False]\<rparr> 1
      \<noteq> None"
    by (simp add: findById_def student_def)
  have h4: "servedOk (servedRecord
      \<lparr>users = [student 1 1], mealHistories = [entry 1 5 Lunch False False]\<rparr> 1 5)"
    unfolding r by (simp add: servedOk_def entry_def)
  note run = serve_marking [OF h1 h2 h3 h4, unfolded r]
  show ?thesis
    using run h1 h4
    by (simp add: entry_def includesSlot_def servedFlag_def markServed_def)
qed

text \<open>
  Claim C10. No serve call changes the collection of users, so every user's
  \<^verbatim>\<open>totalMealCount\<close> is what it was before the call; this includes the call that finds no
  record and saves one carried forward from the latest earlier record.
\<close>

theorem serve_keeps_counters: "users (snd (serve s u mf d)) = users s"
  by (auto simp: serve_def Let_def users_updateMeal users_saveMeal
      split: option.splits sum.splits)

theorem serve_keeps_counters_witness:
  "findMeal \<lparr>users = [student 1 1], mealHistories = [entry 1 4 Lunch False False]\<rparr> 1 5 = None
   \<and> map_option dailyMealCount (findMeal (snd (serve
          \<lparr>users = [student 1 1], mealHistories = [entry 1 4 Lunch False False]\<rparr>
          1 ''Lunch'' 5)) 1 5) = Some 1
   \<and> users (snd (serve
          \<lparr>users = [student 1 1], mealHistories = [entry 1 4 Lunch False False]\<rparr>
          1 ''Lunch'' 5)) = [student 1 1]"
proof -
  have "findMeal \<lparr>users = [student 1 1], mealHistories = [entry 1 4 Lunch False False]\<rparr> 1 5
      = None"
    by (simp add: findMeal_def forDay_def entry_def)
  moreover have "map_option dailyMealCount (findMeal (snd (serve
          \<lparr>users = [student 1 1], mealHistories = [entry 1 4 Lunch False False]\<rparr>
          1 ''Lunch'' 5)) 1 5) = Some 1"
    by (simp add: serve_def parseMeal_def findMeal_def findById_def findLatestBefore_def
        laterOf_def carriedForward_def saveMeal_def updateMeal_def forDay_def entry_def
        student_def mealCount_def Let_def)
  moreover have "users (snd (serve
          \<lparr>users = [student 1 1], mealHistories = [entry 1 4 Lunch False False]\<rparr>
          1 ''Lunch'' 5)) = [student 1 1]"
    using serve_keeps_counters
      [of "\<lparr>users = [student 1 1], mealHistories = [entry 1 4 Lunch False False]\<rparr>" 1
          "''Lunch''" 5]
    by simp
  ultimately show ?thesis
    by simp
qed

subsection \<open>The specific extra grant\<close>

lemma extraSpecific_stored:
  assumes "parseMeal mf = Some slot" and "slot \<in> {Lunch, Dinner}"
    and "findMeal s u d = Some old"
  shows "extraSpecific s u mf d =
     (if meal old = Off
        then (Inr (), incTotal u (1 - mealCount (meal old))
                        (updateMeal u d (extraRecord slot 1 old) s))
      else if meal old \<in> {Lunch, Dinner} \<and> meal old \<noteq> slot
        then (Inr (), incTotal u (2 - mealCount (meal old))
                        (updateMeal u d (extraRecord Both 2 old) s))
      else (Inl AlreadyEnabled, s))"
  using assms by (cases "meal old") (auto simp: extraSpecific_def Let_def)

lemma extraSpecific_absent:
  assumes "parseMeal mf = Some slot" and "slot \<in> {Lunch, Dinner}"
    and "findMeal s u d = None" and "findById s u = Some x"
  shows "extraSpecific s u mf d =
     (Inr (), incTotal u 1
        (updateMeal u d
           (extraRecord slot 1 (entry u d Off False False))
           (saveMeal (entry u d Off False False) s)))"
  using assms by (auto simp: extraSpecific_def Let_def entry_def mealCount_def)

lemma extraRecord_key:
  "userId (extraRecord m k old r) = userId r \<and> date (extraRecord m k old r) = date r"
  by (simp add: extraRecord_def)

text \<open>
  Claim C6. A specific extra grant of a slot, Lunch or Dinner, to an existing user on a day.
  With no record of that day, the day afterwards has a record with the slot as meal, daily
  count 1 and \<^verbatim>\<open>isExtra\<close> set, and the user's total is one higher. With a stored record whose
  meal is Off, that record gets the slot as meal, daily count 1 and \<^verbatim>\<open>isExtra\<close>, and the total
  is one higher. With a stored record whose meal is the other single slot, the meal becomes
  Both with daily count 2, \<^verbatim>\<open>isExtra\<close> is set, the served flags stay, and the total grows by
  2 minus the old count, which is 1. With a stored record whose meal already covers the slot,
  the call fails as already enabled and the database is unchanged.
\<close>

theorem extra_specific_effect:
  assumes slot: "parseMeal mf = Some slot" "slot \<in> {Lunch, Dinner}"
    and usr: "findById s u = Some x"
  shows "(case findMeal s u d of
            None \<Rightarrow>
              fst (extraSpecific s u mf d) = Inr ()
              \<and> findMeal (snd (extraSpecific s u mf d)) u d
                = Some \<lparr>userId = u, date = d, meal = slot, additionalItems = [],
                        lunchServed = False, dinnerServed = False,
                        dailyMealCount = 1, isExtra = True\<rparr>
              \<and> findById (snd (extraSpecific s u mf d)) u
                = Some (x\<lparr>totalMealCount := totalMealCount x + 1\<rparr>)
          | Some old \<Rightarrow>
              (meal old = Off \<longrightarrow>
                 fst (extraSpecific s u mf d) = Inr ()
                 \<and> findMeal (snd (extraSpecific s u mf d)) u d
                   = Some (old\<lparr>meal := slot, dailyMealCount := 1,
                              lunchServed := (slot = Lunch \<and> lunchServed old),
                              dinnerServed := (slot = Dinner \<and> dinnerServed old),
                              isExtra := True\<rparr>)
                 \<and> findById (snd (extraSpecific s u mf d)) u
                   = Some (x\<lparr>totalMealCount := totalMealCount x + (1 - mealCount (meal old))\<rparr>)
                 \<and> mealCount (meal old) = 0)
              \<and> (meal old \<in> {Lunch, Dinner} \<and> meal old \<noteq> slot \<longrightarrow>
                 fst (extraSpecific s u mf d) = Inr ()
                 \<and> findMeal (snd (extraSpecific s u mf d)) u d
                   = Some (old\<lparr>meal := Both, dailyMealCount := 2, isExtra := True\<rparr>)
                 \<and> findById (snd (extraSpecific s u mf d)) u
                   = Some (x\<lparr>totalMealCount := totalMealCount x + (2 - mealCount (meal old))\<rparr>)
                 \<and> mealCount (meal old) = 1)
              \<and> (includesSlot (meal old) slot \<longrightarrow>
                 extraSpecific s u mf d = (Inl AlreadyEnabled, s)))"
proof (cases "findMeal s u d")
  case None
  note run = extraSpecific_absent [OF slot None usr]
  have saved: "findMeal (saveMeal (entry u d Off False False) s) u d
      = Some (entry u d Off False False)"
    by (rule findMeal_saveMeal_new [OF None]) (simp_all add: entry_def)
  have "findMeal (snd (extraSpecific s u mf d)) u d
      = Some (extraRecord slot 1 (entry u d Off False False) (entry u d Off False False))"
    unfolding run
    by (simp add: findMeal_incTotal findMeal_updateMeal_same [OF extraRecord_key] saved)
  moreover have "findById (snd (extraSpecific s u mf d)) u
      = Some (x\<lparr>totalMealCount := totalMealCount x + 1\<rparr>)"
    unfolding run
    by (simp add: findById_incTotal_same findById_updateMeal findById_saveMeal usr)
  ultimately show ?thesis
    using slot(2) by (auto simp: None run extraRecord_def entry_def)
next
  case (Some old)
  note run = extraSpecific_stored [OF slot Some]
  have rec: "findMeal (incTotal u k (updateMeal u d (extraRecord m c old) s)) u d
      = Some (extraRecord m c old old)" for k m c
    by (simp add: findMeal_incTotal findMeal_updateMeal_same [OF extraRecord_key] Some)
  have cnt: "findById (incTotal u k (updateMeal u d f s)) u
      = Some (x\<lparr>totalMealCount := totalMealCount x + k\<rparr>)" for k f
    by (simp add: findById_incTotal_same findById_updateMeal usr)
  have both: "extraRecord Both 2 old old = old\<lparr>meal := Both, dailyMealCount := 2, isExtra := True\<rparr>"
    by (simp add: extraRecord_def)
  have single: "extraRecord slot 1 old old
      = old\<lparr>meal := slot, dailyMealCount := 1,
            lunchServed := (slot = Lunch \<and> lunchServed old),
            dinnerServed := (slot = Dinner \<and> dinnerServed old),
            isExtra := True\<rparr>"
    using slot(2) by (auto simp: extraRecord_def)
  show ?thesis
    unfolding Some option.case run
    using slot(2) by (auto simp: rec cnt both single includesSlot_def mealCount_def)
qed

theorem extra_specific_effect_witness:
  "parseMeal ''Dinner'' = Some Dinner \<and> Dinner \<in> {Lunch, Dinner}
   \<and> findById \<lparr>users = [student 1 1], mealHistories = [entry 1 5 Lunch True False]\<rparr> 1
     = Some (student 1 1)
   \<and> fst (extraSpecific \<lparr>users = [student 1 1], mealHistories = [entry 1 5 Lunch True False]\<rparr>
          1 ''Dinner'' 5) = Inr ()
   \<and> findMeal (snd (extraSpecific
          \<lparr>users = [student 1 1], mealHistories = [entry 1 5 Lunch True False]\<rparr>
          1 ''Dinner'' 5)) 1 5
     = Some ((entry 1 5 Both True False)\<lparr>isExtra := True\<rparr>)
   \<and> findById (snd (extraSpecific
          \<lparr>users = [student 1 1], mealHistories = [entry 1 5 Lunch True False]\<rparr>
          1 ''Dinner'' 5)) 1
     = Some (student 1 2)"
proof -
  have h1: "parseMeal ''Dinner'' = Some Dinner"
    by (simp add: parseMeal_def)
  have h2: "Dinner \<in> {Lunch, Dinner}"
    by simp
  have h3: "findById \<lparr>users = [student 1 1], mealHistories = [entry 1 5 Lunch True False]\<rparr> 1
     = Some (student 1 1)"
    by (simp add: findById_def student_def)
  have h4: "findMeal \<lparr>users = [student 1 1], mealHistories = [entry 1 5 Lunch True False]\<rparr> 1 5
     = Some (entry 1 5 Lunch True False)"
    by (simp add: findMeal_def forDay_def entry_def)
  note run = extra_specific_effect [OF h1 h2 h3, of 5, unfolded h4 option.case]
  show ?thesis
    using run h1 h3 by (simp add: entry_def student_def mealCount_def)
qed

subsection \<open>The daily rollover\<close>

lemma cronUser_stored:
  assumes "findMeal s u today = Some r"
  shows "cronUser today u s =
     incTotal u (mealCount (meal r) - dailyMealCount r)
       (updateMeal u today (\<lambda>x. x\<lparr>dailyMealCount := mealCount (meal r)\<rparr>) s)"
  using assms by (simp add: cronUser_def Let_def)

lemma carriedForward_count:
  "dailyMealCount (carriedForward u d p) = mealCount (meal (carriedForward u d p))"
  by (cases p) (simp_all add: carriedForward_def mealCount_def)

lemma cronUser_absent:
  assumes "findMeal s u today = None"
  shows "cronUser today u s =
     incTotal u 0
       (updateMeal u today
          (\<lambda>x. x\<lparr>dailyMealCount := mealCount (meal (carriedForward u today (findMeal s u (today - 1))))\<rparr>)
          (saveMeal (carriedForward u today (findMeal s u (today - 1))) s))"
  using assms by (simp add: cronUser_def Let_def carriedForward_count)

lemma incTotal_zero: "incTotal u 0 s = s"
proof -
  have "updateFirst (\<lambda>x. uid x = u) (\<lambda>x. x\<lparr>totalMealCount := totalMealCount x + 0\<rparr>) (users s)
      = users s"
    by (rule updateFirst_unchanged) simp
  then show ?thesis by (simp add: incTotal_def)
qed

lemma updateMeal_unchanged:
  assumes "\<And>r. findMeal s u d = Some r \<Longrightarrow> f r = r"
  shows "updateMeal u d f s = s"
proof -
  have "updateFirst (forDay u d) f (mealHistories s) = mealHistories s"
    by (rule updateFirst_unchanged) (simp add: assms findMeal_def)
  then show ?thesis by (simp add: updateMeal_def)
qed

lemma cronUser_settled_noop:
  assumes "settled today s u"
  shows "cronUser today u s = s"
proof -
  from assms obtain r where r: "findMeal s u today = Some r"
    and cnt: "dailyMealCount r = mealCount (meal r)"
    by (auto simp: settled_def split: option.splits)
  have "updateMeal u today (\<lambda>x. x\<lparr>dailyMealCount := mealCount (meal r)\<rparr>) s = s"
    by (rule updateMeal_unchanged) (use r cnt in auto)
  then show ?thesis
    by (simp add: cronUser_stored [OF r] cnt incTotal_zero)
qed

lemma findMeal_after_cronUser_same:
  "\<exists>r. findMeal (cronUser today u s) u today = Some r \<and> dailyMealCount r = mealCount (meal r)"
proof (cases "findMeal s u today")
  case None
  let ?c = "carriedForward u today (findMeal s u (today - 1))"
  have "findMeal (saveMeal ?c s) u today = Some ?c"
    by (rule findMeal_saveMeal_new [OF None]) (simp_all add: carriedForward_key)
  then show ?thesis
    by (simp add: cronUser_absent [OF None] incTotal_zero findMeal_updateMeal_same)
next
  case (Some r)
  then show ?thesis
    by (simp add: cronUser_stored [OF Some] findMeal_incTotal findMeal_updateMeal_same)
qed

lemma findMeal_after_cronUser_other:
  assumes "(v, d) \<noteq> (u, today)"
  shows "findMeal (cronUser today u s) v d = findMeal s v d"
proof -
  have upd: "findMeal (updateMeal u today (\<lambda>x. x\<lparr>dailyMealCount := k\<rparr>) t) v d = findMeal t v d"
    for k t
    by (rule findMeal_updateMeal_other [OF _ assms]) simp
  show ?thesis
  proof (cases "findMeal s u today")
    case None
    let ?c = "carriedForward u today (findMeal s u (today - 1))"
    have "findMeal (saveMeal ?c s) v d = findMeal s v d"
      by (rule findMeal_saveMeal_other) (use assms in \<open>auto simp: carriedForward_key\<close>)
    then show ?thesis
      by (simp add: cronUser_absent [OF None] incTotal_zero upd)
  next
    case (Some r)
    show ?thesis
      by (simp add: cronUser_stored [OF Some] findMeal_incTotal upd)
  qed
qed

lemma cronUser_settles: "settled today (cronUser today u s) u"
  using findMeal_after_cronUser_same [of today u s] by (auto simp: settled_def)

lemma cronUser_keeps_settled:
  assumes "settled today s v"
  shows "settled today (cronUser today u s) v"
proof (cases "v = u")
  case True
  then show ?thesis by (simp add: cronUser_settles)
next
  case False
  then show ?thesis
    using assms by (simp add: settled_def findMeal_after_cronUser_other)
qed

lemma uids_updateFirst:
  "(\<And>x. uid (f x) = uid x) \<Longrightarrow> map uid (updateFirst p f xs) = map uid xs"
  by (induction xs) auto

lemma uids_incTotal: "map uid (users (incTotal i k s)) = map uid (users s)"
  by (simp add: incTotal_def uids_updateFirst)

lemma uids_cronUser: "map uid (users (cronUser today u s)) = map uid (users s)"
  by (cases "findMeal s u today")
     (simp_all add: cronUser_absent cronUser_stored uids_incTotal users_updateMeal users_saveMeal)

lemma fold_cronUser_settled:
  "settled today s v \<or> v \<in> set us \<Longrightarrow> settled today (fold (cronUser today) us s) v"
proof (induction us arbitrary: s)
  case Nil
  then show ?case by simp
next
  case (Cons u us)
  have "settled today (cronUser today u s) v \<or> v \<in> set us"
    using Cons.prems cronUser_settles [of today u s] cronUser_keeps_settled [of today s v u]
    by auto
  then show ?case
    using Cons.IH by simp
qed

lemma fold_cronUser_noop:
  "(\<And>v. v \<in> set us \<Longrightarrow> settled today s v) \<Longrightarrow> fold (cronUser today) us s = s"
  by (induction us) (simp_all add: cronUser_settled_noop)

lemma uids_fold_cronUser: "map uid (users (fold (cronUser today) us s)) = map uid (users s)"
  by (induction us arbitrary: s) (simp_all add: uids_cronUser)

lemma dailyMealUpdate_twice:
  "dailyMealUpdate today (dailyMealUpdate today s) = dailyMealUpdate today s"
  unfolding dailyMealUpdate_def uids_fold_cronUser
  by (rule fold_cronUser_noop) (simp add: fold_cronUser_settled)

lemma filter_updateFirst_length:
  "(\<And>x. q (f x) = q x) \<Longrightarrow> length (filter q (updateFirst p f xs)) = length (filter q xs)"
  by (induction xs) auto

lemma recordsFor_incTotal: "recordsFor (incTotal i k s) v d = recordsFor s v d"
  by (simp add: recordsFor_def incTotal_def)

lemma recordsFor_updateMeal:
  "(\<And>r. userId (f r) = userId r \<and> date (f r) = date r) \<Longrightarrow>
   recordsFor (updateMeal u d' f s) v d = recordsFor s v d"
  unfolding recordsFor_def updateMeal_def
  by (simp, rule filter_updateFirst_length) (simp add: forDay_def)

lemma recordsFor_saveMeal:
  "recordsFor (saveMeal r s) v d = recordsFor s v d + (if forDay v d r then 1 else 0)"
  by (simp add: recordsFor_def saveMeal_def)

lemma recordsFor_zero: "recordsFor s u d = 0 \<longleftrightarrow> findMeal s u d = None"
  by (auto simp: recordsFor_def findMeal_def find_None_iff filter_empty_conv)

lemma recordsFor_cronUser:
  "recordsFor (cronUser today u s) v d =
     (if (v, d) = (u, today) \<and> findMeal s u today = None then 1 else recordsFor s v d)"
proof (cases "findMeal s u today")
  case None
  then have "recordsFor s u today = 0"
    by (simp add: recordsFor_zero)
  then show ?thesis
    using None
    by (auto simp: cronUser_absent [OF None] incTotal_zero recordsFor_updateMeal
        recordsFor_saveMeal forDay_def carriedForward_key)
next
  case (Some r)
  then show ?thesis
    by (simp add: cronUser_stored [OF Some] recordsFor_incTotal recordsFor_updateMeal)
qed

lemma recordsFor_fold_cronUser:
  "recordsFor (fold (cronUser today) us s) v today =
     (if v \<in> set us then max 1 (recordsFor s v today) else recordsFor s v today)"
proof (induction us arbitrary: s)
  case Nil
  show ?case by simp
next
  case (Cons u us)
  have zero: "findMeal s u today = None \<longleftrightarrow> recordsFor s u today = 0"
    by (simp add: recordsFor_zero)
  show ?case
    by (auto simp: Cons.IH recordsFor_cronUser zero)
qed

text \<open>
  Claim C4. Running the daily job a second time for the same day changes nothing: the
  database after two runs is the database after one run, so no record is added and no counter
  moves. For every user who had at most one record of that day before the first run, exactly
  one record of that day remains.
\<close>

theorem rollover_idempotent:
  "dailyMealUpdate today (dailyMealUpdate today s) = dailyMealUpdate today s
   \<and> (\<forall>x \<in> set (users s). recordsFor s (uid x) today \<le> 1 \<longrightarrow>
        recordsFor (dailyMealUpdate today (dailyMealUpdate today s)) (uid x) today = 1)"
proof -
  have "recordsFor (dailyMealUpdate today s) (uid x) today = 1"
    if "x \<in> set (users s)" and "recordsFor s (uid x) today \<le> 1" for x
    using that by (simp add: dailyMealUpdate_def recordsFor_fold_cronUser)
  then show ?thesis
    by (simp add: dailyMealUpdate_twice)
qed

theorem rollover_idempotent_witness:
  "student 1 0 \<in> set (users \<lparr>users = [student 1 0], mealHistories = []\<rparr>)
   \<and> recordsFor \<lparr>users = [student 1 0], mealHistories = []\<rparr> 1 5 \<le> 1
   \<and> recordsFor (dailyMealUpdate 5 (dailyMealUpdate 5
         \<lparr>users = [student 1 0], mealHistories = []\<rparr>)) 1 5 = 1
   \<and> dailyMealUpdate 5 (dailyMealUpdate 5 \<lparr>users = [student 1 0], mealHistories = []\<rparr>)
     = dailyMealUpdate 5 \<lparr>users = [student 1 0], mealHistories = []\<rparr>"
proof -
  have h1: "student 1 0 \<in> set (users \<lparr>users = [student 1 0], mealHistories = []\<rparr>)"
    by simp
  have h2: "recordsFor \<lparr>users = [student 1 0], mealHistories = []\<rparr> (uid (student 1 0)) 5 \<le> 1"
    by (simp add: recordsFor_def)
  note run = rollover_idempotent [of 5 "\<lparr>users = [student 1 0], mealHistories = []\<rparr>"]
  from run have "recordsFor (dailyMealUpdate 5 (dailyMealUpdate 5
         \<lparr>users = [student 1 0], mealHistories = []\<rparr>)) (uid (student 1 0)) 5 = 1"
    using h1 h2 by blast
  then show ?thesis
    using run h1 h2 by (simp add: student_def)
qed

lemma findMeal_cronUser_new:
  assumes "findMeal s u today = None"
  shows "findMeal (cronUser today u s) u today
     = Some (carriedForward u today (findMeal s u (today - 1)))"
proof -
  let ?c = "carriedForward u today (findMeal s u (today - 1))"
  have saved: "findMeal (saveMeal ?c s) u today = Some ?c"
    by (rule findMeal_saveMeal_new [OF assms]) (simp_all add: carriedForward_key)
  have "?c\<lparr>dailyMealCount := mealCount (meal ?c)\<rparr> = ?c"
    using carriedForward_count [of u today "findMeal s u (today - 1)"] by simp
  then show ?thesis
    by (simp add: cronUser_absent [OF assms] incTotal_zero findMeal_updateMeal_same saved)
qed

lemma findMeal_fold_cronUser_settled:
  "settled today s u \<Longrightarrow> findMeal (fold (cronUser today) us s) u today = findMeal s u today"
proof (induction us arbitrary: s)
  case Nil
  show ?case by simp
next
  case (Cons w us)
  have "findMeal (cronUser today w s) u today = findMeal s u today"
  proof (cases "w = u")
    case True
    then show ?thesis
      using Cons.prems by (simp add: cronUser_settled_noop)
  next
    case False
    then show ?thesis
      by (simp add: findMeal_after_cronUser_other)
  qed
  moreover have "settled today (cronUser today w s) u"
    using Cons.prems by (rule cronUser_keeps_settled)
  ultimately show ?case
    using Cons.IH by simp
qed

lemma findMeal_fold_cronUser_new:
  "u \<in> set us \<Longrightarrow> findMeal s u today = None \<Longrightarrow>
   findMeal (fold (cronUser today) us s) u today
     = Some (carriedForward u today (findMeal s u (today - 1)))"
proof (induction us arbitrary: s)
  case Nil
  then show ?case by simp
next
  case (Cons w us)
  show ?case
  proof (cases "w = u")
    case True
    have "findMeal (fold (cronUser today) us (cronUser today u s)) u today
        = findMeal (cronUser today u s) u today"
      by (rule findMeal_fold_cronUser_settled) (rule cronUser_settles)
    then show ?thesis
      using True Cons.prems(2) by (simp add: findMeal_cronUser_new)
  next
    case False
    then have "u \<in> set us"
      using Cons.prems(1) by simp
    moreover have "findMeal (cronUser today w s) u today = None"
      using False Cons.prems(2) by (simp add: findMeal_after_cronUser_other)
    moreover have "findMeal (cronUser today w s) u (today - 1) = findMeal s u (today - 1)"
      by (simp add: findMeal_after_cronUser_other)
    ultimately show ?thesis
      using Cons.IH [of "cronUser today w s"] by simp
  qed
qed

text \<open>
  Claim C3, as amended. For every user without a record of today, the daily job leaves
  exactly one record of today for that user: it carries the meal and the add-ons of the
  user's record dated yesterday, both served flags are false, \<^verbatim>\<open>isExtra\<close> is false and the
  daily count is the count of the carried meal. When the user has no record dated yesterday
  the new record has meal Off and daily count 0, whatever older records exist.
\<close>

theorem rollover_creates_from_yesterday:
  assumes "x \<in> set (users s)" and "findMeal s (uid x) today = None"
  shows "findMeal (dailyMealUpdate today s) (uid x) today
       = Some \<lparr>userId = uid x, date = today,
               meal = (case findMeal s (uid x) (today - 1) of None \<Rightarrow> Off | Some p \<Rightarrow> meal p),
               additionalItems =
                 (case findMeal s (uid x) (today - 1) of None \<Rightarrow> []
                  | Some p \<Rightarrow> additionalItems p),
               lunchServed = False, dinnerServed = False,
               dailyMealCount =
                 (case findMeal s (uid x) (today - 1) of None \<Rightarrow> 0
                  | Some p \<Rightarrow> mealCount (meal p)),
               isExtra = False\<rparr>
     \<and> recordsFor (dailyMealUpdate today s) (uid x) today = 1"
proof -
  have "uid x \<in> set (map uid (users s))"
    using assms(1) by simp
  then have "findMeal (dailyMealUpdate today s) (uid x) today
      = Some (carriedForward (uid x) today (findMeal s (uid x) (today - 1)))"
    unfolding dailyMealUpdate_def using assms(2) by (rule findMeal_fold_cronUser_new)
  moreover have "recordsFor s (uid x) today = 0"
    using assms(2) by (simp add: recordsFor_zero)
  then have "recordsFor (dailyMealUpdate today s) (uid x) today = 1"
    using assms(1) by (simp add: dailyMealUpdate_def recordsFor_fold_cronUser)
  ultimately show ?thesis
    by (simp add: carriedForward_def)
qed

theorem rollover_creates_from_yesterday_witness:
  "student 1 2 \<in> set (users \<lparr>users = [student 1 2], mealHistories = [entry 1 4 Both True False]\<rparr>)
   \<and> findMeal \<lparr>users = [student 1 2], mealHistories = [entry 1 4 Both True False]\<rparr> 1 5 = None
   \<and> findMeal (dailyMealUpdate 5
         \<lparr>users = [student 1 2], mealHistories = [entry 1 4 Both True False]\<rparr>) 1 5
     = Some (entry 1 5 Both False False)"
proof -
  have h1: "student 1 2
      \<in> set (users \<lparr>users = [student 1 2], mealHistories = [entry 1 4 Both True False]\<rparr>)"
    by simp
  have h2: "findMeal \<lparr>users = [student 1 2], mealHistories = [entry 1 4 Both True False]\<rparr>
      (uid (student 1 2)) 5 = None"
    by (simp add: findMeal_def forDay_def entry_def)
  have h3: "findMeal \<lparr>users = [student 1 2], mealHistories = [entry 1 4 Both True False]\<rparr>
      (uid (student 1 2)) (5 - 1) = Some (entry 1 4 Both True False)"
    by (simp add: findMeal_def forDay_def entry_def student_def)
  note run = rollover_creates_from_yesterday [OF h1 h2, unfolded h3 option.case]
  show ?thesis
    using run h1 h2 by (simp add: student_def entry_def)
qed

text \<open>
  Counterexample to claim C3 as stated. User 1 has one record, two days before day 5, with
  meal Lunch, and none for day 4 or day 5. The latest earlier record has meal Lunch, yet the
  record that the job of day 5 creates has meal Off.
\<close>

theorem rollover_latest_counterexample:
  "findMeal \<lparr>users = [student 1 1], mealHistories = [entry 1 3 Lunch False False]\<rparr> 1 5 = None
   \<and> findLatestBefore \<lparr>users = [student 1 1], mealHistories = [entry 1 3 Lunch False False]\<rparr>
        1 5 = Some (entry 1 3 Lunch False False)
   \<and> findMeal (dailyMealUpdate 5
        \<lparr>users = [student 1 1], mealHistories = [entry 1 3 Lunch False False]\<rparr>) 1 5
     = Some (entry 1 5 Off False False)"
  by (simp add: dailyMealUpdate_def cronUser_def findMeal_def findLatestBefore_def laterOf_def
      forDay_def entry_def student_def carriedForward_def saveMeal_def updateMeal_def
      incTotal_def mealCount_def Let_def)

subsection \<open>The counter against the sum of the daily counts\<close>

lemma sum_updateFirst:
  "find p xs = Some old \<Longrightarrow> (\<And>x. q (f x) = q x) \<Longrightarrow>
   sum_list (map g (filter q (updateFirst p f xs)))
     = sum_list (map g (filter q xs)) + (if q old then g (f old) - g old else (0::int))"
  by (induction xs) (auto split: if_splits)

lemma dailySum_incTotal: "dailySum (incTotal i k s) v = dailySum s v"
  by (simp add: dailySum_def incTotal_def)

lemma dailySum_saveMeal:
  "dailySum (saveMeal r s) v = dailySum s v + (if userId r = v then dailyMealCount r else 0)"
  by (simp add: dailySum_def saveMeal_def)

lemma dailySum_updateMeal:
  assumes "findMeal s u d = Some old" and "\<And>r. userId (f r) = userId r"
  shows "dailySum (updateMeal u d f s) v
     = dailySum s v + (if v = u then dailyMealCount (f old) - dailyMealCount old else 0)"
proof -
  have "userId old = u"
    using assms(1) by (auto simp: findMeal_def forDay_def dest: find_Some_iff [THEN iffD1])
  then show ?thesis
    using sum_updateFirst [of "forDay u d" "mealHistories s" old "\<lambda>r. userId r = v" f
        dailyMealCount] assms
    by (auto simp: dailySum_def updateMeal_def findMeal_def)
qed

lemma sync_updateFirst:
  "distinct (map uid xs) \<Longrightarrow> list_all (\<lambda>x. totalMealCount x = D (uid x)) xs \<Longrightarrow>
   list_all (\<lambda>x. totalMealCount x = D (uid x) + (if uid x = u then k else 0))
     (updateFirst (\<lambda>x. uid x = u) (\<lambda>x. x\<lparr>totalMealCount := totalMealCount x + k\<rparr>) xs)"
proof (induction xs)
  case Nil
  show ?case by simp
next
  case (Cons x xs)
  show ?case
  proof (cases "uid x = u")
    case True
    then have "u \<notin> uid ` set xs"
      using Cons.prems(1) by auto
    then have "list_all (\<lambda>x. totalMealCount x = D (uid x) + (if uid x = u then k else 0)) xs"
      using Cons.prems(2) by (auto simp: list_all_iff)
    then show ?thesis
      using True Cons.prems(2) by simp
  next
    case False
    then show ?thesis
      using Cons by simp
  qed
qed

lemma consistent_step:
  assumes "consistent s"
    and ids: "users t = users s"
    and recs: "list_all (\<lambda>r. dailyMealCount r = mealCount (meal r)) (mealHistories t)"
    and sums: "\<And>v. dailySum t v = dailySum s v + (if v = u then k else 0)"
  shows "consistent (incTotal u k t)"
proof -
  have "list_all (\<lambda>x. totalMealCount x = dailySum s (uid x) + (if uid x = u then k else 0))
      (updateFirst (\<lambda>x. uid x = u) (\<lambda>x. x\<lparr>totalMealCount := totalMealCount x + k\<rparr>) (users s))"
    using assms(1) by (intro sync_updateFirst) (simp_all add: consistent_def countsInSync_def)
  moreover have "users (incTotal u k t)
      = updateFirst (\<lambda>x. uid x = u) (\<lambda>x. x\<lparr>totalMealCount := totalMealCount x + k\<rparr>) (users s)"
    by (simp add: incTotal_def ids)
  ultimately have "countsInSync (incTotal u k t)"
    unfolding countsInSync_def by (simp add: dailySum_incTotal sums)
  moreover have "distinct (map uid (users (incTotal u k t)))"
    using assms(1) by (simp add: uids_incTotal ids consistent_def)
  ultimately show ?thesis
    using recs by (simp add: consistent_def mealHistories_incTotal)
qed

lemma list_all_updateFirst:
  "list_all P xs \<Longrightarrow> (\<And>x. P x \<Longrightarrow> P (f x)) \<Longrightarrow> list_all P (updateFirst p f xs)"
  by (induction xs) auto

lemma consistent_change:
  assumes "consistent s" and old: "findMeal s u d = Some old"
    and key: "\<And>r. userId (f r) = userId r"
    and cnt: "\<And>r. dailyMealCount (f r) = mealCount (meal (f r))"
    and k: "k = dailyMealCount (f old) - mealCount (meal old)"
  shows "consistent (incTotal u k (updateMeal u d f s))"
proof (rule consistent_step [OF assms(1)])
  show "users (updateMeal u d f s) = users s"
    by (rule users_updateMeal)
  show "list_all (\<lambda>r. dailyMealCount r = mealCount (meal r)) (mealHistories (updateMeal u d f s))"
    using assms(1) cnt by (simp add: updateMeal_def consistent_def list_all_updateFirst)
  have "old \<in> set (mealHistories s)"
    using old by (auto simp: findMeal_def find_Some_iff)
  then have "dailyMealCount old = mealCount (meal old)"
    using assms(1) by (auto simp: consistent_def list_all_iff)
  then show "dailySum (updateMeal u d f s) v = dailySum s v + (if v = u then k else 0)" for v
    by (simp add: dailySum_updateMeal [OF old key] k)
qed

lemma consistent_create:
  assumes "consistent s" and "userId r = u" and "dailyMealCount r = mealCount (meal r)"
  shows "consistent (incTotal u (dailyMealCount r) (saveMeal r s))"
proof (rule consistent_step [OF assms(1)])
  show "users (saveMeal r s) = users s"
    by (rule users_saveMeal)
  show "list_all (\<lambda>r. dailyMealCount r = mealCount (meal r)) (mealHistories (saveMeal r s))"
    using assms by (simp add: saveMeal_def consistent_def)
  show "dailySum (saveMeal r s) v = dailySum s v + (if v = u then dailyMealCount r else 0)" for v
    using assms(2) by (auto simp: dailySum_saveMeal)
qed

text \<open>
  The two meal-change handlers keep a consistent database consistent: the delta they apply
  to the counter is the change of the sum of the daily counts.
\<close>

lemma mealUpdate_consistent:
  assumes "consistent s"
  shows "consistent (snd (mealUpdate s now u mf items df))"
proof -
  have a: "consistent (incTotal u (mealCount m - mealCount (meal old))
      (updateMeal u d (\<lambda>r. (changedRecord m old r)\<lparr>additionalItems := xs\<rparr>) s))"
    if "findMeal s u d = Some old" for m old d xs
    by (rule consistent_change [OF assms that]) (simp_all add: changedRecord_def)
  have b: "consistent (incTotal u (mealCount m)
      (saveMeal \<lparr>userId = u, date = d, meal = m, additionalItems = xs, lunchServed = False,
                 dinnerServed = False, dailyMealCount = mealCount m, isExtra = False\<rparr> s))"
    for m d xs
    using consistent_create [OF assms, of
        "\<lparr>userId = u, date = d, meal = m, additionalItems = xs, lunchServed = False,
          dinnerServed = False, dailyMealCount = mealCount m, isExtra = False\<rparr>" u]
    by simp
  show ?thesis
    using assms a b by (simp add: mealUpdate_def Let_def split: option.splits)
qed

lemma staffUpdate_consistent:
  assumes "consistent s"
  shows "consistent (snd (staffUpdate s uf mf df))"
proof -
  have a: "consistent (incTotal u (mealCount m - mealCount (meal old))
      (updateMeal u d (changedRecord m old) s))"
    if "findMeal s u d = Some old" for u m old d
    by (rule consistent_change [OF assms that]) (simp_all add: changedRecord_def)
  have b: "consistent (incTotal u (mealCount m)
      (saveMeal \<lparr>userId = u, date = d, meal = m, additionalItems = [], lunchServed = False,
                 dinnerServed = False, dailyMealCount = mealCount m, isExtra = False\<rparr> s))"
    for u m d
    using consistent_create [OF assms, of
        "\<lparr>userId = u, date = d, meal = m, additionalItems = [], lunchServed = False,
          dinnerServed = False, dailyMealCount = mealCount m, isExtra = False\<rparr>" u]
    by simp
  show ?thesis
    using assms a b by (simp add: staffUpdate_def Let_def split: option.splits)
qed

lemma extraSpecific_consistent:
  assumes "consistent s"
  shows "consistent (snd (extraSpecific s u mf d))"
proof (cases "parseMeal mf")
  case None
  then show ?thesis
    using assms by (simp add: extraSpecific_def)
next
  case (Some slot)
  show ?thesis
  proof (cases "slot \<in> {Lunch, Dinner}")
    case False
    then show ?thesis
      using assms Some by (simp add: extraSpecific_def)
  next
    case True
    then have one: "mealCount slot = 1"
      by (auto simp: mealCount_def)
    show ?thesis
    proof (cases "findMeal s u d")
      case (Some old)
      note run = extraSpecific_stored [OF \<open>parseMeal mf = Some slot\<close> True Some]
      have single: "consistent (incTotal u (1 - mealCount (meal old))
          (updateMeal u d (extraRecord slot 1 old) s))"
        by (rule consistent_change [OF assms Some]) (simp_all add: extraRecord_def one)
      have both: "consistent (incTotal u (2 - mealCount (meal old))
          (updateMeal u d (extraRecord Both 2 old) s))"
        by (rule consistent_change [OF assms Some]) (simp_all add: extraRecord_def mealCount_def)
      consider (off) "meal old = Off"
        | (other) "meal old \<noteq> Off" "meal old \<in> {Lunch, Dinner} \<and> meal old \<noteq> slot"
        | (covered) "meal old \<noteq> Off" "\<not> (meal old \<in> {Lunch, Dinner} \<and> meal old \<noteq> slot)"
        by blast
      then show ?thesis
      proof cases
        case off
        then show ?thesis
          unfolding run using single by simp
      next
        case other
        then show ?thesis
          unfolding run using both by simp
      next
        case covered
        then show ?thesis
          unfolding run using assms by auto
      qed
    next
      case None
      show ?thesis
      proof (cases "findById s u")
        case absent: None
        then show ?thesis
          using assms None True \<open>parseMeal mf = Some slot\<close> by (auto simp: extraSpecific_def)
      next
        case (Some x)
        let ?r = "entry u d Off False False"
        have "consistent (incTotal u (dailyMealCount ?r) (saveMeal ?r s))"
          by (rule consistent_create [OF assms]) (simp_all add: entry_def)
        then have saved: "consistent (saveMeal ?r s)"
          by (simp add: entry_def mealCount_def incTotal_zero)
        have found: "findMeal (saveMeal ?r s) u d = Some ?r"
          by (rule findMeal_saveMeal_new [OF None]) (simp_all add: entry_def)
        have "consistent (incTotal u 1 (updateMeal u d (extraRecord slot 1 ?r) (saveMeal ?r s)))"
          by (rule consistent_change [OF saved found])
             (simp_all add: extraRecord_def one entry_def mealCount_values)
        then show ?thesis
          unfolding extraSpecific_absent [OF \<open>parseMeal mf = Some slot\<close> True None Some]
          by simp
      qed
    qed
  qed
qed

text \<open>
  Claim C1 at a concrete database. User 1 has total 1 and one record, of day 4, with meal Lunch
  and daily count 1, so the counter equals the sum of the daily counts. The job of day 5 saves
  a record of day 5 with daily count 1 and adds \<open>1 - 1 = 0\<close> to the counter: afterwards the
  daily counts sum to 2 and the counter is still 1.
\<close>

theorem rollover_breaks_sync:
  "countsInSync \<lparr>users = [student 1 1], mealHistories = [entry 1 4 Lunch False False]\<rparr>
   \<and> users (dailyMealUpdate 5
        \<lparr>users = [student 1 1], mealHistories = [entry 1 4 Lunch False False]\<rparr>)
     = [student 1 1]
   \<and> dailySum (dailyMealUpdate 5
        \<lparr>users = [student 1 1], mealHistories = [entry 1 4 Lunch False False]\<rparr>) 1 = 2
   \<and> \<not> countsInSync (dailyMealUpdate 5
        \<lparr>users = [student 1 1], mealHistories = [entry 1 4 Lunch False False]\<rparr>)"
  by (simp add: countsInSync_def dailySum_def dailyMealUpdate_def cronUser_def findMeal_def
      forDay_def entry_def student_def carriedForward_def saveMeal_def updateMeal_def
      incTotal_def mealCount_def Let_def)

subsection \<open>The bulk extra grant\<close>

lemma extra_run:
  assumes "parseMeal mf = Some mt" and "mt \<in> {Lunch, Dinner, Both}"
  shows "fst (extra s mf d)
           = Inr (length (filter (\<lambda>r. date r = d \<and> meal r = Off) (mealHistories s)))"
    and "mealHistories (snd (extra s mf d))
           = map (\<lambda>r. if date r = d \<and> meal r = Off
                       then r\<lparr>meal := mt, lunchServed := False, dinnerServed := False,
                              dailyMealCount := (if mt = Both then 2 else 1), isExtra := True\<rparr>
                       else r) (mealHistories s)"
    and "users (snd (extra s mf d))
           = map (\<lambda>x. if hasRecord s (uid x) d {Off} \<or>
                          hasRecord s (uid x) d {mt}
                            \<and> filter (\<lambda>r. date r = d \<and> meal r = Off) (mealHistories s) \<noteq> []
                       then x\<lparr>totalMealCount := totalMealCount x + (if mt = Both then 2 else 1)\<rparr>
                       else x) (users s)"
proof -
  show "fst (extra s mf d)
           = Inr (length (filter (\<lambda>r. date r = d \<and> meal r = Off) (mealHistories s)))"
    using assms by (auto simp: extra_def Let_def)
  show "mealHistories (snd (extra s mf d))
           = map (\<lambda>r. if date r = d \<and> meal r = Off
                       then r\<lparr>meal := mt, lunchServed := False, dinnerServed := False,
                              dailyMealCount := (if mt = Both then 2 else 1), isExtra := True\<rparr>
                       else r) (mealHistories s)"
    using assms by (auto simp: extra_def Let_def)
  have off: "mt \<noteq> Off"
    using assms(2) by auto
  define upd :: "mealHistory \<Rightarrow> mealHistory" where "upd = (\<lambda>r. if date r = d \<and> meal r = Off
                       then r\<lparr>meal := mt, lunchServed := False, dinnerServed := False,
                              dailyMealCount := (if mt = Both then 2 else 1), isExtra := True\<rparr>
                       else r)"
  have upd_key: "userId (upd r) = userId r" "date (upd r) = date r" for r
    by (simp_all add: upd_def)
  have upd_meal: "meal (upd r) = (if date r = d \<and> meal r = Off then mt else meal r)" for r
    by (simp add: upd_def)
  have ids': "v \<in> userId ` {r \<in> set (map upd (mealHistories s)). date r = d \<and> meal r = mt}
      \<longleftrightarrow> hasRecord s v d {Off} \<or> hasRecord s v d {mt}" for v
  proof
    assume "v \<in> userId ` {r \<in> set (map upd (mealHistories s)). date r = d \<and> meal r = mt}"
    then obtain r0 where r0: "r0 \<in> set (mealHistories s)" "userId (upd r0) = v"
      "date (upd r0) = d" "meal (upd r0) = mt"
      by auto
    then have "userId r0 = v \<and> date r0 = d \<and> (meal r0 = Off \<or> meal r0 = mt)"
      by (auto simp: upd_key upd_meal split: if_splits)
    then show "hasRecord s v d {Off} \<or> hasRecord s v d {mt}"
      using r0(1) by (auto simp: hasRecord_def list_ex_iff)
  next
    assume "hasRecord s v d {Off} \<or> hasRecord s v d {mt}"
    then obtain r0 where r0: "r0 \<in> set (mealHistories s)" "userId r0 = v" "date r0 = d"
      "meal r0 = Off \<or> meal r0 = mt"
      by (auto simp: hasRecord_def list_ex_iff)
    then have "upd r0 \<in> set (map upd (mealHistories s))" "userId (upd r0) = v"
      "date (upd r0) = d" "meal (upd r0) = mt"
      using off by (auto simp: upd_key upd_meal)
    then show "v \<in> userId ` {r \<in> set (map upd (mealHistories s)). date r = d \<and> meal r = mt}"
      by blast
  qed
  note ids = ids' [unfolded upd_def]
  have none: "filter (\<lambda>r. date r = d \<and> meal r = Off) (mealHistories s) = [] \<Longrightarrow>
      \<not> hasRecord s v d {Off}" for v
    by (auto simp: hasRecord_def list_ex_iff filter_empty_conv)
  show "users (snd (extra s mf d))
           = map (\<lambda>x. if hasRecord s (uid x) d {Off} \<or>
                          hasRecord s (uid x) d {mt}
                            \<and> filter (\<lambda>r. date r = d \<and> meal r = Off) (mealHistories s) \<noteq> []
                       then x\<lparr>totalMealCount := totalMealCount x + (if mt = Both then 2 else 1)\<rparr>
                       else x) (users s)"
  proof (cases "filter (\<lambda>r. date r = d \<and> meal r = Off) (mealHistories s) = []")
    case True
    have "users (snd (extra s mf d)) = users s"
      using assms True by (auto simp: extra_def Let_def)
    also have "\<dots> = map (\<lambda>x. x) (users s)"
      by simp
    finally show ?thesis
      using True none by (simp cong: map_cong)
  next
    case False
    then have pos: "0 < length (filter (\<lambda>r. date r = d \<and> meal r = Off) (mealHistories s))"
      by simp
    show ?thesis
      using assms False pos ids by (simp add: extra_def Let_def cong: map_cong)
  qed
qed

lemma hasRecord_union:
  "hasRecord s u d {m, m'} \<longleftrightarrow> hasRecord s u d {m} \<or> hasRecord s u d {m'}"
  by (auto simp: hasRecord_def list_ex_iff)

text \<open>
  Claim C5, as amended. The bulk grant of a meal type (Lunch, Dinner or Both) for a day
  reports the number of records of that day whose meal is Off, and rewrites exactly those
  records: the meal becomes the meal type, the daily count 2 for Both and 1 otherwise, both
  served flags false and \<^verbatim>\<open>isExtra\<close> true; every other record is unchanged and none is
  created, so a user without a record of the day still has none. Every user who had an Off
  record of the day has the total raised once by that count, and every user with no record
  of the day of meal Off or of the granted meal type keeps the total.
\<close>

theorem bulk_extra_effect:
  assumes "parseMeal mf = Some mt" and "mt \<in> {Lunch, Dinner, Both}"
  shows "fst (extra s mf d)
           = Inr (length (filter (\<lambda>r. date r = d \<and> meal r = Off) (mealHistories s)))
     \<and> mealHistories (snd (extra s mf d))
           = map (\<lambda>r. if date r = d \<and> meal r = Off
                       then r\<lparr>meal := mt, lunchServed := False, dinnerServed := False,
                              dailyMealCount := (if mt = Both then 2 else 1), isExtra := True\<rparr>
                       else r) (mealHistories s)
     \<and> list_all2
          (\<lambda>x x'. (hasRecord s (uid x) d {Off} \<longrightarrow>
                      x' = x\<lparr>totalMealCount := totalMealCount x + (if mt = Both then 2 else 1)\<rparr>)
                 \<and> (\<not> hasRecord s (uid x) d {Off, mt} \<longrightarrow> x' = x))
          (users s) (users (snd (extra s mf d)))"
proof -
  have "list_all2
          (\<lambda>x x'. (hasRecord s (uid x) d {Off} \<longrightarrow>
                      x' = x\<lparr>totalMealCount := totalMealCount x + (if mt = Both then 2 else 1)\<rparr>)
                 \<and> (\<not> hasRecord s (uid x) d {Off, mt} \<longrightarrow> x' = x))
          (users s) (users (snd (extra s mf d)))"
    unfolding extra_run(3) [OF assms] list_all2_map2
    by (rule list_all2_refl) (simp add: hasRecord_union)
  then show ?thesis
    using extra_run(1,2) [OF assms] by simp
qed

theorem bulk_extra_effect_witness:
  "parseMeal ''Lunch'' = Some Lunch \<and> Lunch \<in> {Lunch, Dinner, Both}
   \<and> hasRecord \<lparr>users = [student 1 0, student 2 0, student 3 1],
        mealHistories = [entry 1 5 Off False False, entry 3 5 Dinner False False]\<rparr> 1 5 {Off}
   \<and> \<not> hasRecord \<lparr>users = [student 1 0, student 2 0, student 3 1],
        mealHistories = [entry 1 5 Off False False, entry 3 5 Dinner False False]\<rparr> 2 5
        {Off, Lunch}
   \<and> extra \<lparr>users = [student 1 0, student 2 0, student 3 1],
        mealHistories = [entry 1 5 Off False False, entry 3 5 Dinner False False]\<rparr> ''Lunch'' 5
     = (Inr 1,
        \<lparr>users = [student 1 1, student 2 0, student 3 1],
         mealHistories = [(entry 1 5 Lunch False False)\<lparr>isExtra := True\<rparr>,
                          entry 3 5 Dinner False False]\<rparr>)"
proof -
  have h1: "parseMeal ''Lunch'' = Some Lunch"
    by (simp add: parseMeal_def)
  have h2: "Lunch \<in> {Lunch, Dinner, Both}"
    by simp
  note run = bulk_extra_effect [OF h1 h2,
      of "\<lparr>users = [student 1 0, student 2 0, student 3 1],
          mealHistories = [entry 1 5 Off False False, entry 3 5 Dinner False False]\<rparr>" 5]
  have "snd (extra \<lparr>users = [student 1 0, student 2 0, student 3 1],
        mealHistories = [entry 1 5 Off False False, entry 3 5 Dinner False False]\<rparr> ''Lunch'' 5)
     = \<lparr>users = [student 1 1, student 2 0, student 3 1],
         mealHistories = [(entry 1 5 Lunch False False)\<lparr>isExtra := True\<rparr>,
                          entry 3 5 Dinner False False]\<rparr>"
    using run
    by (cases "snd (extra \<lparr>users = [student 1 0, student 2 0, student 3 1],
        mealHistories = [entry 1 5 Off False False, entry 3 5 Dinner False False]\<rparr> ''Lunch'' 5)")
       (simp add: hasRecord_def entry_def student_def mealCount_def list_all2_Cons1)
  then show ?thesis
    using run h1 by (simp add: prod_eq_iff hasRecord_def entry_def student_def mealCount_def)
qed

text \<open>
  Counterexample to claim C5 as stated. User 1 has no record of day 5 and user 2 has an Off
  record. The bulk grant of Lunch reports one user; user 1 still has no record of day 5 and
  the same total as before.
\<close>

theorem bulk_extra_counterexample:
  "findMeal \<lparr>users = [student 1 0, student 2 0], mealHistories = [entry 2 5 Off False False]\<rparr>
      1 5 = None
   \<and> extra \<lparr>users = [student 1 0, student 2 0], mealHistories = [entry 2 5 Off False False]\<rparr>
        ''Lunch'' 5
     = (Inr 1,
        \<lparr>users = [student 1 0, student 2 1],
         mealHistories = [(entry 2 5 Lunch False False)\<lparr>isExtra := True\<rparr>]\<rparr>)
   \<and> findMeal (snd (extra
        \<lparr>users = [student 1 0, student 2 0], mealHistories = [entry 2 5 Off False False]\<rparr>
        ''Lunch'' 5)) 1 5 = None"
  by (simp add: extra_def parseMeal_def findMeal_def forDay_def entry_def student_def
      mealCount_def Let_def)

text \<open>
  The bulk grant also raises the total of a user whose record of the day already had the
  granted meal type, as soon as some other record of the day was Off: here user 1 keeps the
  Lunch record and daily count 1 while the total goes from 1 to 2.
\<close>

lemma bulk_extra_counts_again:
  "countsInSync \<lparr>users = [student 1 1, student 2 0],
      mealHistories = [entry 1 5 Lunch False False, entry 2 5 Off False False]\<rparr>
   \<and> extra \<lparr>users = [student 1 1, student 2 0],
        mealHistories = [entry 1 5 Lunch False False, entry 2 5 Off False False]\<rparr> ''Lunch'' 5
     = (Inr 1,
        \<lparr>users = [student 1 2, student 2 1],
         mealHistories = [entry 1 5 Lunch False False,
                          (entry 2 5 Lunch False False)\<lparr>isExtra := True\<rparr>]\<rparr>)"
  by (simp add: extra_def parseMeal_def entry_def student_def mealCount_def Let_def
      countsInSync_def dailySum_def)

subsection \<open>The staff query for off meals\<close>

lemma find_filter: "find p (filter q xs) = find (\<lambda>x. q x \<and> p x) xs"
  by (induction xs) auto

lemma userOffMeals_findMeal:
  "userOffMeals s d x =
     (case findMeal s (uid x) d of
        Some mh \<Rightarrow> offMealsOf (meal mh) (lunchServed mh) (dinnerServed mh)
      | None \<Rightarrow> [Lunch, Dinner])"
proof -
  have "find (\<lambda>mh. userId mh = uid x) (filter (\<lambda>mh. date mh = d) (mealHistories s))
      = findMeal s (uid x) d"
    unfolding find_filter findMeal_def
    by (rule arg_cong [where f = "\<lambda>p. find p (mealHistories s)"]) (auto simp: forDay_def)
  moreover have "offMealsOf Off False False = [Lunch, Dinner]"
    by (simp add: offMealsOf_def)
  ultimately show ?thesis
    by (simp add: userOffMeals_def split: option.splits)
qed

text \<open>
  Claim C9, as amended. The query returns the database unchanged together with one entry for
  each selected user whose list of off meals is not empty, in the order of the users. The list
  of a user comes from the record of the day: with no record or with meal Off it is Lunch and
  Dinner; with meal Lunch it is the other slot, Dinner, exactly when \<^verbatim>\<open>lunchServed\<close> is false,
  and empty otherwise; with meal Dinner it is Lunch exactly when \<^verbatim>\<open>dinnerServed\<close> is false, and
  empty otherwise; with meal Both it contains Lunch exactly when \<^verbatim>\<open>lunchServed\<close> is false and,
  when \<^verbatim>\<open>lunchServed\<close> is true, it contains Dinner exactly when \<^verbatim>\<open>dinnerServed\<close> is false.
\<close>

theorem all_users_query:
  "allUsers s d b g =
     (map (\<lambda>x. \<lparr>entryId = uid x, entryName = name x, entryClassRoll = classRoll x,
                 offMeals = userOffMeals s d x\<rparr>)
        (filter (\<lambda>x. (b \<noteq> [] \<and> b \<noteq> ''all'' \<longrightarrow> batch x = b)
                    \<and> (g \<noteq> [] \<and> g \<noteq> ''all'' \<longrightarrow> gender x = g)
                    \<and> userOffMeals s d x \<noteq> []) (users s)),
      s)
   \<and> (case findMeal s (uid x) d of
         None \<Rightarrow> userOffMeals s d x = [Lunch, Dinner]
       | Some mh \<Rightarrow>
           (meal mh = Off \<longrightarrow> userOffMeals s d x = [Lunch, Dinner])
           \<and> (meal mh = Lunch \<longrightarrow>
                userOffMeals s d x = (if lunchServed mh then [] else [Dinner]))
           \<and> (meal mh = Dinner \<longrightarrow>
                userOffMeals s d x = (if dinnerServed mh then [] else [Lunch]))
           \<and> (meal mh = Both \<longrightarrow>
                (Lunch \<in> set (userOffMeals s d x) \<longleftrightarrow> \<not> lunchServed mh)
                \<and> (lunchServed mh \<longrightarrow>
                     (Dinner \<in> set (userOffMeals s d x) \<longleftrightarrow> \<not> dinnerServed mh))))"
proof -
  have "allUsers s d b g =
     (map (\<lambda>x. \<lparr>entryId = uid x, entryName = name x, entryClassRoll = classRoll x,
                 offMeals = userOffMeals s d x\<rparr>)
        (filter (\<lambda>x. (b \<noteq> [] \<and> b \<noteq> ''all'' \<longrightarrow> batch x = b)
                    \<and> (g \<noteq> [] \<and> g \<noteq> ''all'' \<longrightarrow> gender x = g)
                    \<and> userOffMeals s d x \<noteq> []) (users s)),
      s)"
    unfolding allUsers_def Let_def filter_map filter_filter
    by (simp add: comp_def conj_commute conj_left_commute cong: filter_cong)
  moreover have "(case findMeal s (uid x) d of
         None \<Rightarrow> userOffMeals s d x = [Lunch, Dinner]
       | Some mh \<Rightarrow>
           (meal mh = Off \<longrightarrow> userOffMeals s d x = [Lunch, Dinner])
           \<and> (meal mh = Lunch \<longrightarrow>
                userOffMeals s d x = (if lunchServed mh then [] else [Dinner]))
           \<and> (meal mh = Dinner \<longrightarrow>
                userOffMeals s d x = (if dinnerServed mh then [] else [Lunch]))
           \<and> (meal mh = Both \<longrightarrow>
                (Lunch \<in> set (userOffMeals s d x) \<longleftrightarrow> \<not> lunchServed mh)
                \<and> (lunchServed mh \<longrightarrow>
                     (Dinner \<in> set (userOffMeals s d x) \<longleftrightarrow> \<not> dinnerServed mh))))"
    by (simp add: userOffMeals_findMeal offMealsOf_def split: option.splits)
  ultimately show ?thesis
    by (rule conjI)
qed

theorem all_users_query_witness:
  "findMeal \<lparr>users = [student 1 1], mealHistories = [entry 1 5 Dinner False False]\<rparr>
      (uid (student 1 1)) 5 = Some (entry 1 5 Dinner False False)
   \<and> meal (entry 1 5 Dinner False False) = Dinner
   \<and> userOffMeals \<lparr>users = [student 1 1], mealHistories = [entry 1 5 Dinner False False]\<rparr> 5
        (student 1 1) = [Lunch]
   \<and> snd (allUsers \<lparr>users = [student 1 1], mealHistories = [entry 1 5 Dinner False False]\<rparr>
        5 [] []) = \<lparr>users = [student 1 1], mealHistories = [entry 1 5 Dinner False False]\<rparr>"
proof -
  have h: "findMeal \<lparr>users = [student 1 1], mealHistories = [entry 1 5 Dinner False False]\<rparr>
      (uid (student 1 1)) 5 = Some (entry 1 5 Dinner False False)"
    by (simp add: findMeal_def forDay_def entry_def student_def)
  note run = all_users_query
    [of "\<lparr>users = [student 1 1], mealHistories = [entry 1 5 Dinner False False]\<rparr>" 5 "[]" "[]"
        "student 1 1", unfolded h option.case]
  show ?thesis
    using run h by (simp add: entry_def)
qed

text \<open>
  Counterexample to claim C9 as stated. User 1 has meal Lunch for day 5 and lunch is not
  served. The query lists Dinner for that user, not Lunch.
\<close>

theorem all_users_counterexample:
  "fst (allUsers \<lparr>users = [student 1 1], mealHistories = [entry 1 5 Lunch False False]\<rparr>
        5 [] [])
   = [\<lparr>entryId = 1, entryName = ''Student'', entryClassRoll = 1, offMeals = [Dinner]\<rparr>]"
  by (simp add: allUsers_def userOffMeals_def offMealsOf_def entry_def student_def Let_def)

text \<open>
  For meal Both with neither slot served the chain of \<^verbatim>\<open>else if\<close> stops at its first Both
  branch: the list is Lunch alone.
\<close>

lemma all_users_both_unserved:
  "fst (allUsers \<lparr>users = [student 1 2], mealHistories = [entry 1 5 Both False False]\<rparr>
        5 [] [])
   = [\<lparr>entryId = 1, entryName = ''Student'', entryClassRoll = 1, offMeals = [Lunch]\<rparr>]"
  by (simp add: allUsers_def userOffMeals_def offMealsOf_def entry_def student_def Let_def)

subsection \<open>Invariant I3 is kept by every handler\<close>

lemma list_all_updateFirst_found:
  "list_all P xs \<Longrightarrow> (\<And>x. find p xs = Some x \<Longrightarrow> P (f x)) \<Longrightarrow>
   list_all P (updateFirst p f xs)"
  by (induction xs) (auto split: if_splits)

lemma servedOk_updateMeal:
  assumes "list_all servedOk (mealHistories s)"
    and "\<And>r. findMeal s u d = Some r \<Longrightarrow> servedOk (f r)"
  shows "list_all servedOk (mealHistories (updateMeal u d f s))"
  using assms by (simp add: updateMeal_def findMeal_def list_all_updateFirst_found)

lemma servedOk_saveMeal:
  "list_all servedOk (mealHistories s) \<Longrightarrow> servedOk r \<Longrightarrow>
   list_all servedOk (mealHistories (saveMeal r s))"
  by (simp add: saveMeal_def)

lemma servedOk_changedRecord: "servedOk ((changedRecord m old r)\<lparr>additionalItems := xs\<rparr>)"
  "servedOk (changedRecord m old r)"
  by (auto simp: servedOk_def changedRecord_def)

lemma servedOk_extraRecord:
  "m \<in> {Lunch, Dinner, Both} \<Longrightarrow> servedOk (extraRecord m k old r)"
  by (auto simp: servedOk_def extraRecord_def)

lemma servedOk_carriedForward: "servedOk (carriedForward u d p)"
  by (simp add: servedOk_def carriedForward_def)

lemma mealUpdate_servedOk:
  assumes "list_all servedOk (mealHistories s)"
  shows "list_all servedOk (mealHistories (snd (mealUpdate s now u mf items df)))"
proof -
  have a: "list_all servedOk (mealHistories (incTotal u k
      (updateMeal u d (\<lambda>r. (changedRecord m old r)\<lparr>additionalItems := xs\<rparr>) s)))"
    for k d m old xs
    using assms by (simp add: mealHistories_incTotal servedOk_updateMeal servedOk_changedRecord)
  have b: "list_all servedOk (mealHistories (incTotal u k
      (saveMeal \<lparr>userId = u, date = d, meal = m, additionalItems = xs, lunchServed = False,
                 dinnerServed = False, dailyMealCount = c, isExtra = False\<rparr> s)))"
    for k d m xs c
    using assms by (simp add: mealHistories_incTotal servedOk_saveMeal servedOk_def)
  show ?thesis
    using assms a b by (simp add: mealUpdate_def Let_def split: option.splits)
qed

lemma staffUpdate_servedOk:
  assumes "list_all servedOk (mealHistories s)"
  shows "list_all servedOk (mealHistories (snd (staffUpdate s uf mf df)))"
proof -
  have a: "list_all servedOk (mealHistories (incTotal u k
      (updateMeal u d (changedRecord m old) s)))"
    for u k d m old
    using assms by (simp add: mealHistories_incTotal servedOk_updateMeal servedOk_changedRecord)
  have b: "list_all servedOk (mealHistories (incTotal u k
      (saveMeal \<lparr>userId = u, date = d, meal = m, additionalItems = [], lunchServed = False,
                 dinnerServed = False, dailyMealCount = c, isExtra = False\<rparr> s)))"
    for u k d m c
    using assms by (simp add: mealHistories_incTotal servedOk_saveMeal servedOk_def)
  show ?thesis
    using assms a b by (simp add: staffUpdate_def Let_def split: option.splits)
qed

lemma serve_servedOk:
  assumes "list_all servedOk (mealHistories s)"
  shows "list_all servedOk (mealHistories (snd (serve s u mf d)))"
proof (cases "parseMeal mf")
  case None
  then show ?thesis
    using assms by (simp add: serve_def)
next
  case (Some slot)
  show ?thesis
  proof (cases "slot \<in> {Lunch, Dinner}")
    case False
    then show ?thesis
      using assms Some by (simp add: serve_def)
  next
    case True
    have mark: "servedOk r \<Longrightarrow> includesSlot (meal r) slot \<Longrightarrow> servedOk (markServed slot r)" for r
      using True by (auto simp: servedOk_def markServed_def includesSlot_def)
    show ?thesis
    proof (cases "findMeal s u d")
      case stored: (Some r)
      then have "r \<in> set (mealHistories s)"
        by (auto simp: findMeal_def find_Some_iff)
      then have "servedOk r"
        using assms by (simp add: list_all_iff)
      then have "includesSlot (meal r) slot \<Longrightarrow>
          list_all servedOk (mealHistories (updateMeal u d (markServed slot) s))"
        using assms stored by (intro servedOk_updateMeal) (auto simp: mark)
      then show ?thesis
        unfolding serve_stored [OF Some True stored] using assms by auto
    next
      case None
      show ?thesis
      proof (cases "findById s u")
        case absent: None
        then show ?thesis
          using assms by (simp add: serve_unknown_user [OF Some True None])
      next
        case user: (Some x)
        let ?r = "servedRecord s u d"
        have r: "servedOk ?r"
          by (simp add: servedRecord_def None servedOk_carriedForward)
        then have saved: "list_all servedOk (mealHistories (saveMeal ?r s))"
          using assms by (simp add: servedOk_saveMeal)
        have "findMeal (saveMeal ?r s) u d = Some ?r"
          by (rule findMeal_saveMeal_new [OF None])
             (simp_all add: servedRecord_def None carriedForward_key)
        then have "includesSlot (meal ?r) slot \<Longrightarrow>
            list_all servedOk (mealHistories (updateMeal u d (markServed slot) (saveMeal ?r s)))"
          using saved r by (intro servedOk_updateMeal) (auto simp: mark)
        then show ?thesis
          unfolding serve_built [OF Some True None user] using saved by auto
      qed
    qed
  qed
qed

lemma extra_servedOk:
  assumes "list_all servedOk (mealHistories s)"
  shows "list_all servedOk (mealHistories (snd (extra s mf d)))"
  using assms
  by (auto simp: extra_def Let_def list_all_iff servedOk_def split: option.splits)

lemma extraSpecific_servedOk:
  assumes "list_all servedOk (mealHistories s)"
  shows "list_all servedOk (mealHistories (snd (extraSpecific s u mf d)))"
proof (cases "parseMeal mf")
  case None
  then show ?thesis
    using assms by (simp add: extraSpecific_def)
next
  case (Some slot)
  show ?thesis
  proof (cases "slot \<in> {Lunch, Dinner}")
    case False
    then show ?thesis
      using assms Some by (simp add: extraSpecific_def)
  next
    case True
    then have slot: "slot \<in> {Lunch, Dinner, Both}"
      by auto
    show ?thesis
    proof (cases "findMeal s u d")
      case stored: (Some old)
      have "list_all servedOk (mealHistories (updateMeal u d (extraRecord m k old) s))"
        if "m \<in> {Lunch, Dinner, Both}" for m k
        using assms that by (intro servedOk_updateMeal) (simp_all add: servedOk_extraRecord)
      then show ?thesis
        unfolding extraSpecific_stored [OF Some True stored]
        using assms slot by (simp add: mealHistories_incTotal)
    next
      case None
      show ?thesis
      proof (cases "findById s u")
        case absent: None
        then show ?thesis
          using assms None True Some by (auto simp: extraSpecific_def)
      next
        case user: (Some x)
        have "list_all servedOk (mealHistories (saveMeal (entry u d Off False False) s))"
          using assms by (simp add: servedOk_saveMeal servedOk_def entry_def)
        then have "list_all servedOk (mealHistories (updateMeal u d
            (extraRecord slot 1 (entry u d Off False False))
            (saveMeal (entry u d Off False False) s)))"
          using slot by (intro servedOk_updateMeal) (simp_all add: servedOk_extraRecord)
        then show ?thesis
          unfolding extraSpecific_absent [OF Some True None user]
          by (simp add: mealHistories_incTotal)
      qed
    qed
  qed
qed

lemma cronUser_servedOk:
  assumes "list_all servedOk (mealHistories s)"
  shows "list_all servedOk (mealHistories (cronUser today u s))"
proof (cases "findMeal s u today")
  case None
  let ?c = "carriedForward u today (findMeal s u (today - 1))"
  have saved: "list_all servedOk (mealHistories (saveMeal ?c s))"
    using assms by (simp add: servedOk_saveMeal servedOk_carriedForward)
  have "findMeal (saveMeal ?c s) u today = Some ?c"
    by (rule findMeal_saveMeal_new [OF None]) (simp_all add: carriedForward_key)
  then have "list_all servedOk (mealHistories (updateMeal u today
      (\<lambda>x. x\<lparr>dailyMealCount := mealCount (meal ?c)\<rparr>) (saveMeal ?c s)))"
    using saved by (intro servedOk_updateMeal) (auto simp: servedOk_def carriedForward_def)
  then show ?thesis
    by (simp add: cronUser_absent [OF None] mealHistories_incTotal)
next
  case (Some r)
  then have "r \<in> set (mealHistories s)"
    by (auto simp: findMeal_def find_Some_iff)
  then have "servedOk r"
    using assms by (simp add: list_all_iff)
  then have "list_all servedOk (mealHistories (updateMeal u today
      (\<lambda>x. x\<lparr>dailyMealCount := mealCount (meal r)\<rparr>) s))"
    using assms Some by (intro servedOk_updateMeal) (auto simp: servedOk_def)
  then show ?thesis
    by (simp add: cronUser_stored [OF Some] mealHistories_incTotal)
qed

lemma dailyMealUpdate_servedOk:
  assumes "list_all servedOk (mealHistories s)"
  shows "list_all servedOk (mealHistories (dailyMealUpdate today s))"
proof -
  have "list_all servedOk (mealHistories (fold (cronUser today) us t))"
    if "list_all servedOk (mealHistories t)" for us t
    using that by (induction us arbitrary: t) (simp_all add: cronUser_servedOk)
  then show ?thesis
    using assms by (simp add: dailyMealUpdate_def)
qed

subsection \<open>Other handlers that move the sum without the counter, or the counter without the sum\<close>

text \<open>
  A serve call that finds no record of the day saves one carried forward from the latest
  earlier record and leaves the counter alone: with a Lunch record of day 4 and total 1, a
  serve call for Lunch on day 5 succeeds, the daily counts then sum to 2 and the total is
  still 1.
\<close>

lemma serve_breaks_sync:
  "countsInSync \<lparr>users = [student 1 1], mealHistories = [entry 1 4 Lunch False False]\<rparr>
   \<and> serve \<lparr>users = [student 1 1], mealHistories = [entry 1 4 Lunch False False]\<rparr>
        1 ''Lunch'' 5
     = (Inr (),
        \<lparr>users = [student 1 1],
         mealHistories = [entry 1 4 Lunch False False, entry 1 5 Lunch True False]\<rparr>)
   \<and> \<not> countsInSync
        \<lparr>users = [student 1 1],
         mealHistories = [entry 1 4 Lunch False False, entry 1 5 Lunch True False]\<rparr>"
  by (simp add: serve_def parseMeal_def findMeal_def findById_def findLatestBefore_def
      laterOf_def carriedForward_def saveMeal_def updateMeal_def forDay_def entry_def
      student_def mealCount_def countsInSync_def dailySum_def Let_def)

text \<open>
  After the bulk grant of \<open>bulk_extra_counts_again\<close> user 1 has total 2 against a single
  record of daily count 1.
\<close>

lemma bulk_extra_breaks_sync:
  "\<not> countsInSync (snd (extra \<lparr>users = [student 1 1, student 2 0],
        mealHistories = [entry 1 5 Lunch False False, entry 2 5 Off False False]\<rparr>
        ''Lunch'' 5))"
  unfolding bulk_extra_counts_again [THEN conjunct2]
  by (simp add: countsInSync_def dailySum_def entry_def student_def mealCount_def)

end
